theory Spec2Isabelle
  imports Complex_Main "HOL-Library.Word"
begin

section \<open>Python values\<close>

text \<open>
  A Python \<open>str\<close> is a sequence of Unicode code points and \<open>len\<close> counts code points,
  so a \<open>str\<close> is a list of naturals. A \<open>bytes\<close> object is a list of 8-bit words.
  \<open>lit\<close> and \<open>blit\<close> write an ASCII literal of the source as a \<open>str\<close> and as
  \<open>bytes\<close>.
\<close>

type_synonym pystr = "nat list"
type_synonym pybytes = "8 word list"

definition lit :: "string \<Rightarrow> pystr" where
  "lit s = map of_char s"

definition blit :: "string \<Rightarrow> pybytes" where
  "blit s = map of_char s"

text \<open>
  \<open>str.isspace\<close> for one code point: the characters that \<open>str.strip()\<close> removes
  (CPython's whitespace table: the ASCII controls 9-13 and 28-31, space, NEL, NBSP
  and the Unicode space separators).
\<close>

definition is_space :: "nat \<Rightarrow> bool" where
  "is_space c = (c \<in> {9, 10, 11, 12, 13, 28, 29, 30, 31, 32, 133, 160, 5760,
                      8192, 8193, 8194, 8195, 8196, 8197, 8198, 8199, 8200, 8201, 8202,
                      8232, 8233, 8239, 8287, 12288})"

definition lstrip :: "pystr \<Rightarrow> pystr" where
  "lstrip s = dropWhile is_space s"

definition rstrip :: "pystr \<Rightarrow> pystr" where
  "rstrip s = rev (dropWhile is_space (rev s))"

definition strip :: "pystr \<Rightarrow> pystr" where
  "strip s = rstrip (lstrip s)"

text \<open>\<open>sep.join(xs)\<close>.\<close>

fun join :: "pystr \<Rightarrow> pystr list \<Rightarrow> pystr" where
  "join sep [] = []"
| "join sep [x] = x"
| "join sep (x # y # ys) = x @ sep @ join sep (y # ys)"

section \<open>Exceptions\<close>

text \<open>
  The exception classes the parsers raise, catch or receive from the libraries.
  \<open>OtherError\<close> stands for any further subclass of \<open>Exception\<close> a library may raise.
  An exception value carries its class and the text \<open>str(e)\<close>.

  Modelled from the spec: the base classes \<open>DocumentParsingError\<close>, \<open>ValidationError\<close>
  and \<open>EncodingError\<close> are imported by the parsers from \<open>app.services.document_parser\<close>
  but are not defined in the file of that name under src/. The spec describes them as the
  shared hierarchy of parsing error kinds; they are ordinary exceptions, so
  \<open>DocumentParsingError\<close> derives from \<open>Exception\<close> and the other two from it, and
  \<open>str(e)\<close> is the message the exception was built with.
\<close>

datatype exc_class =
    Exception
  | OtherError
  | AttributeError
  | ValueError
  | TypeError
  | UnicodeDecodeError
  | LookupError
  | ImportError
  | PdfReadError
  | PackageNotFoundError
  | DocumentParsingError
  | ValidationError
  | EncodingError
  | PDFParsingError
  | PDFEncryptedError
  | PDFDamagedError
  | DOCXParsingError
  | DOCXCorruptedError
  | TXTParsingError
  | TXTEncodingError

text \<open>The direct base class (\<open>Exception\<close> is the root of what \<open>except Exception\<close> catches).\<close>

fun base_class :: "exc_class \<Rightarrow> exc_class option" where
  "base_class Exception = None"
| "base_class UnicodeDecodeError = Some ValueError"
| "base_class ValidationError = Some DocumentParsingError"
| "base_class EncodingError = Some DocumentParsingError"
| "base_class PDFParsingError = Some DocumentParsingError"
| "base_class PDFEncryptedError = Some DocumentParsingError"
| "base_class PDFDamagedError = Some DocumentParsingError"
| "base_class DOCXParsingError = Some DocumentParsingError"
| "base_class DOCXCorruptedError = Some DocumentParsingError"
| "base_class TXTParsingError = Some DocumentParsingError"
| "base_class TXTEncodingError = Some EncodingError"
| "base_class _ = Some Exception"

text \<open>\<open>issubclass c d\<close>: the hierarchy is at most four classes deep.\<close>

definition issubclass :: "exc_class \<Rightarrow> exc_class \<Rightarrow> bool" where
  "issubclass c d =
     (c = d \<or> base_class c = Some d
      \<or> Option.bind (base_class c) base_class = Some d
      \<or> Option.bind (Option.bind (base_class c) base_class) base_class = Some d)"

datatype exn = Exn (cls: exc_class) (msg: pystr)

text \<open>\<open>except C as e\<close> matches when the class of \<open>e\<close> is a subclass of \<open>C\<close>.\<close>

definition caught_by :: "exn \<Rightarrow> exc_class \<Rightarrow> bool" where
  "caught_by e c = issubclass (cls e) c"

section \<open>The simple parsers and the factory (app/services/document_parser.py)\<close>

datatype simple_parser = PdfParser | DocxParser | TxtParser

text \<open>
  \<open>DocumentParserFactory.create_parser\<close>. \<open>str.lower\<close> is Python's Unicode lower-casing;
  it is the parameter \<open>lower\<close>. The local variable \<open>file_type\<close> is reassigned to its
  lower-case form before the comparisons and before the message is built.
\<close>

definition create_parser :: "(pystr \<Rightarrow> pystr) \<Rightarrow> pystr \<Rightarrow> exn + simple_parser" where
  "create_parser lower file_type =
     (let file_type = lower file_type in
      if file_type = lit ''pdf'' then Inr PdfParser
      else if file_type = lit ''docx'' then Inr DocxParser
      else if file_type = lit ''txt'' then Inr TxtParser
      else Inl (Exn ValueError (lit ''Unsupported file type: '' @ file_type)))"

text \<open>\<open>str.lower\<close> on ASCII text: the letters A-Z move to a-z, everything else stays.\<close>

definition ascii_lower :: "pystr \<Rightarrow> pystr" where
  "ascii_lower s = map (\<lambda>c. if 65 \<le> c \<and> c \<le> 90 then c + 32 else c) s"

section \<open>Strict UTF-8 decoding\<close>

text \<open>
  \<open>bytes.decode("utf-8")\<close>: the strict decoder. It rejects a continuation byte in
  leading position, the bytes C0, C1 and F5-FF, a truncated sequence, an overlong form,
  a surrogate and a code point beyond U+10FFFF. \<open>None\<close> stands for the
  \<open>UnicodeDecodeError\<close>.
\<close>

definition is_cont :: "8 word \<Rightarrow> bool" where
  "is_cont b = (0x80 \<le> b \<and> b \<le> 0xBF)"

definition cont_bits :: "8 word \<Rightarrow> nat" where
  "cont_bits b = unat b - 128"

fun utf8_decode :: "pybytes \<Rightarrow> pystr option" where
  "utf8_decode [] = Some []"
| "utf8_decode [b0] = (if b0 < 0x80 then Some [unat b0] else None)"
| "utf8_decode [b0, b1] =
     (if b0 < 0x80 then map_option ((#) (unat b0)) (utf8_decode [b1])
      else if 0xC2 \<le> b0 \<and> b0 \<le> 0xDF \<and> is_cont b1
      then Some [(unat b0 - 192) * 64 + cont_bits b1]
      else None)"
| "utf8_decode [b0, b1, b2] =
     (if b0 < 0x80 then map_option ((#) (unat b0)) (utf8_decode [b1, b2])
      else if 0xC2 \<le> b0 \<and> b0 \<le> 0xDF \<and> is_cont b1
      then map_option ((#) ((unat b0 - 192) * 64 + cont_bits b1)) (utf8_decode [b2])
      else if 0xE0 \<le> b0 \<and> b0 \<le> 0xEF \<and> is_cont b1 \<and> is_cont b2
              \<and> (if b0 = 0xE0 then 0xA0 \<le> b1 else True)
              \<and> (if b0 = 0xED then b1 \<le> 0x9F else True)
      then Some [(unat b0 - 224) * 4096 + cont_bits b1 * 64 + cont_bits b2]
      else None)"
| "utf8_decode (b0 # b1 # b2 # b3 # bs) =
     (if b0 < 0x80 then map_option ((#) (unat b0)) (utf8_decode (b1 # b2 # b3 # bs))
      else if 0xC2 \<le> b0 \<and> b0 \<le> 0xDF \<and> is_cont b1
      then map_option ((#) ((unat b0 - 192) * 64 + cont_bits b1)) (utf8_decode (b2 # b3 # bs))
      else if 0xE0 \<le> b0 \<and> b0 \<le> 0xEF \<and> is_cont b1 \<and> is_cont b2
              \<and> (if b0 = 0xE0 then 0xA0 \<le> b1 else True)
              \<and> (if b0 = 0xED then b1 \<le> 0x9F else True)
      then map_option ((#) ((unat b0 - 224) * 4096 + cont_bits b1 * 64 + cont_bits b2))
             (utf8_decode (b3 # bs))
      else if 0xF0 \<le> b0 \<and> b0 \<le> 0xF4 \<and> is_cont b1 \<and> is_cont b2 \<and> is_cont b3
              \<and> (if b0 = 0xF0 then 0x90 \<le> b1 else True)
              \<and> (if b0 = 0xF4 then b1 \<le> 0x8F else True)
      then map_option ((#) ((unat b0 - 240) * 262144 + cont_bits b1 * 4096
                              + cont_bits b2 * 64 + cont_bits b3))
             (utf8_decode bs)
      else None)"

section \<open>The TXT parser (app/services/txt_parser.py)\<close>

subsection \<open>Text normalisation\<close>

text \<open>\<open>re.sub(r' +', ' ', s)\<close>: every maximal run of spaces becomes one space.\<close>

function sub_spaces :: "pystr \<Rightarrow> pystr" where
  "sub_spaces [] = []"
| "sub_spaces (c # cs) =
     (if c = 32 then 32 # sub_spaces (dropWhile (\<lambda>x. x = 32) cs) else c # sub_spaces cs)"
  by pat_completeness auto
termination
  by (relation "measure length") (auto simp: length_dropWhile_le less_Suc_eq_le)

text \<open>\<open>re.sub(r'\r\n|\r', '\n', s)\<close>: CR LF, or else a CR alone, becomes LF.\<close>

fun sub_line_endings :: "pystr \<Rightarrow> pystr" where
  "sub_line_endings [] = []"
| "sub_line_endings [c] = [if c = 13 then 10 else c]"
| "sub_line_endings (c # d # cs) =
     (if c = 13 \<and> d = 10 then 10 # sub_line_endings cs
      else if c = 13 then 10 # sub_line_endings (d # cs)
      else c # sub_line_endings (d # cs))"

text \<open>
  \<open>re.sub(r'\n{3,}', '\n\n', s)\<close>: a maximal run of three or more LF becomes two LF;
  a shorter run does not match and is copied.
\<close>

function sub_blank_lines :: "pystr \<Rightarrow> pystr" where
  "sub_blank_lines [] = []"
| "sub_blank_lines (c # cs) =
     (if c = 10 \<and> 3 \<le> length (takeWhile (\<lambda>x. x = 10) (c # cs))
      then 10 # 10 # sub_blank_lines (dropWhile (\<lambda>x. x = 10) cs)
      else c # sub_blank_lines cs)"
  by pat_completeness auto
termination
  by (relation "measure length") (auto simp: length_dropWhile_le less_Suc_eq_le)

text \<open>
  \<open>TXTParser.normalize_text\<close>. The method reads only \<open>self._decoded_content\<close>, which is
  \<open>None\<close> before decoding; \<open>not self._decoded_content\<close> holds for \<open>None\<close> and for the
  empty string.
\<close>

definition normalize_text :: "pystr option \<Rightarrow> pystr" where
  "normalize_text decoded_content =
     (case decoded_content of
        None \<Rightarrow> []
      | Some s \<Rightarrow>
          if s = [] then []
          else strip (sub_blank_lines (sub_line_endings (sub_spaces s))))"

subsection \<open>Decoding\<close>

text \<open>
  What the TXT parser takes from the Python runtime and from the libraries
  \<open>chardet\<close> and \<open>langdetect\<close>:
  \<^item> \<open>chardet_detect\<close>: \<open>chardet.detect(content)\<close> as the pair of
    \<open>detection['encoding']\<close> (which may be \<open>None\<close>) and \<open>detection['confidence']\<close>,
    a float given by its exact rational value;
  \<^item> \<open>bytes_decode\<close>: \<open>content.decode(encoding)\<close>, which raises \<open>UnicodeDecodeError\<close>
    on undecodable bytes and \<open>LookupError\<close> on an unknown encoding name;
  \<^item> \<open>decode_utf8_replace\<close>: \<open>content.decode('utf-8', errors='replace')\<close>, which
    cannot fail;
  \<^item> \<open>str_lower\<close>: \<open>str.lower\<close>;
  \<^item> \<open>re_word_char\<close>: the code points that \<open>\w\<close> matches;
  \<^item> \<open>langdetect_detect\<close>: \<open>import langdetect\<close> followed by
    \<open>langdetect.detect(text)\<close>; the error covers the failed import.
\<close>

record txt_runtime =
  chardet_detect :: "pybytes \<Rightarrow> pystr option \<times> rat"
  bytes_decode :: "pybytes \<Rightarrow> pystr \<Rightarrow> exn + pystr"
  decode_utf8_replace :: "pybytes \<Rightarrow> pystr"
  str_lower :: "pystr \<Rightarrow> pystr"
  re_word_char :: "nat \<Rightarrow> bool"
  langdetect_detect :: "pystr \<Rightarrow> exn + pystr"

text \<open>
  The fields of a \<open>TXTParser\<close> instance. \<open>__init__\<close> sets \<open>_encoding\<close> to 'utf-8' and
  \<open>_decoded_content\<close> to \<open>None\<close>; \<open>_confidence\<close> exists only after a detection.

  Modelled from the spec: \<open>_content\<close>, \<open>_set_content\<close> and the logging helpers are
  used by the format parsers and by their unit tests but are defined nowhere under src/
  (the class \<open>DocumentParser\<close> of document_parser.py has \<open>parse\<close> only). By the spec the
  content buffer holds the raw bytes given to \<open>parse\<close>; it is \<open>None\<close> before that, and
  \<open>_set_content\<close> stores the bytes. The logging helpers of the base class have no
  effect on the result.
\<close>

record txt_parser =
  txt_content :: "pybytes option"
  txt_encoding :: pystr
  txt_decoded_content :: "pystr option"
  txt_confidence :: "rat option"

definition new_txt_parser :: txt_parser where
  "new_txt_parser =
     \<lparr>txt_content = None, txt_encoding = lit ''utf-8'',
      txt_decoded_content = None, txt_confidence = None\<rparr>"

text \<open>
  The test of the binary-content scan, \<open>b < 9 or (b > 13 and b < 32 and b != 27)\<close>.
\<close>

definition is_binary_char :: "8 word \<Rightarrow> bool" where
  "is_binary_char b = (b < 9 \<or> (b > 13 \<and> b < 32 \<and> b \<noteq> 27))"

definition binary_chars :: "pybytes \<Rightarrow> nat" where
  "binary_chars content = length (filter is_binary_char content)"

text \<open>
  \<open>binary_chars > len(self._content) * 0.05\<close> compares an int with a float product.
  The double nearest to 0.05 is \<open>0.05 * (1 + 2^-54)\<close>, and for every length below
  \<open>2^47\<close> the rounded product compares with an integer count exactly as \<open>len / 20\<close>
  does, so the test is \<open>20 * binary_chars > len\<close>.
\<close>

definition too_many_binary_chars :: "pybytes \<Rightarrow> bool" where
  "too_many_binary_chars content = (20 * binary_chars content > length content)"

text \<open>The float literal \<open>0.7\<close> is the double \<open>3152519739159347 / 2^52\<close>.\<close>

definition confidence_threshold :: rat where
  "confidence_threshold = 3152519739159347 / 4503599627370496"

text \<open>
  \<open>TXTParser._detect_and_decode_content\<close>. The result is the exception raised, if any,
  and the instance as the method leaves it.
\<close>

definition detect_and_decode_content ::
  "txt_runtime \<Rightarrow> txt_parser \<Rightarrow> (exn + unit) \<times> txt_parser" where
  "detect_and_decode_content rt self =
     (case txt_content self of
        None \<Rightarrow> (Inl (Exn TXTEncodingError (lit ''No content to decode'')), self)
      | Some content \<Rightarrow>
          if content = [] then (Inl (Exn TXTEncodingError (lit ''No content to decode'')), self)
          else if length content < 10
          then (Inl (Exn TXTParsingError
                  (lit ''Content too short to be a valid text document'')), self)
          else if too_many_binary_chars content
          then (Inl (Exn TXTParsingError
                  (lit ''Invalid text content: contains too many binary characters'')), self)
          else
            let detection = chardet_detect rt content;
                encoding = (case fst detection of
                              None \<Rightarrow> lit ''utf-8''
                            | Some e \<Rightarrow> if e = [] then lit ''utf-8'' else e);
                self1 = self\<lparr>txt_encoding := encoding,
                              txt_confidence := Some (snd detection)\<rparr>
            in
            if snd detection < confidence_threshold \<and> length content < 50
            then (Inl (Exn TXTParsingError
                    (lit ''Invalid text content: unable to detect encoding with confidence'')),
                  self1)
            else if 0x80 \<in> set content
                    \<and> str_lower rt encoding \<in> {lit ''utf-8'', lit ''utf8'', lit ''ascii''}
            then (Inl (Exn TXTEncodingError
                    (lit ''Invalid '' @ encoding @ lit '' sequence detected'')), self1)
            else
              (case bytes_decode rt content encoding of
                 Inr text \<Rightarrow> (Inr (), self1\<lparr>txt_decoded_content := Some text\<rparr>)
               | Inl e \<Rightarrow>
                   if caught_by e UnicodeDecodeError
                   then
                     let self2 = self1\<lparr>txt_encoding := lit ''utf-8'',
                                        txt_decoded_content :=
                                          Some (decode_utf8_replace rt content)\<rparr>
                     in
                     if length content < 50
                     then (Inl (Exn TXTEncodingError
                             (lit ''Failed to decode content with any encoding: '' @ msg e
                              @ lit '', fallback error: ''
                              @ lit ''Invalid text content: encoding errors detected'')),
                           self2)
                     else (Inr (), self2)
                   else (Inl e, self1)))"

subsection \<open>Metadata and validation\<close>

datatype pyval = PInt int | PStr pystr

type_synonym metadata = "string \<rightharpoonup> pyval"

text \<open>
  \<open>str.splitlines()\<close>: a line ends at LF, CR, CR LF, VT, FF, FS, GS, RS, NEL, LS or PS,
  and no empty line follows a final line break. The first argument collects the current
  line in reverse.
\<close>

definition is_line_break :: "nat \<Rightarrow> bool" where
  "is_line_break c = (c \<in> {10, 11, 12, 13, 28, 29, 30, 133, 8232, 8233})"

fun splitlines_from :: "pystr \<Rightarrow> pystr \<Rightarrow> pystr list" where
  "splitlines_from cur [] = (if cur = [] then [] else [rev cur])"
| "splitlines_from cur [c] = (if is_line_break c then [rev cur] else [rev (c # cur)])"
| "splitlines_from cur (c # d # cs) =
     (if c = 13 \<and> d = 10 then rev cur # splitlines_from [] cs
      else if is_line_break c then rev cur # splitlines_from [] (d # cs)
      else splitlines_from (c # cur) (d # cs))"

definition splitlines :: "pystr \<Rightarrow> pystr list" where
  "splitlines s = splitlines_from [] s"

text \<open>
  \<open>len(re.findall(r'\b\w+\b', s))\<close>: the number of maximal runs of word characters.
  The flag tells whether the previous character was a word character.
\<close>

fun count_words :: "(nat \<Rightarrow> bool) \<Rightarrow> bool \<Rightarrow> pystr \<Rightarrow> nat" where
  "count_words w inside [] = 0"
| "count_words w inside (c # cs) =
     (if w c then (if inside then 0 else 1) + count_words w True cs
      else count_words w False cs)"

text \<open>\<open>TXTParser.extract_metadata\<close>.\<close>

definition txt_extract_metadata :: "txt_runtime \<Rightarrow> txt_parser \<Rightarrow> metadata" where
  "txt_extract_metadata rt self =
     (case txt_decoded_content self of
        None \<Rightarrow> Map.empty
      | Some text \<Rightarrow>
          let metadata =
                [''line_count'' \<mapsto> PInt (int (length (splitlines text))),
                 ''word_count'' \<mapsto> PInt (int (count_words (re_word_char rt) False text)),
                 ''char_count'' \<mapsto> PInt (int (length text)),
                 ''encoding'' \<mapsto> PStr (txt_encoding self)]
          in
          if length (strip text) > 10
          then (case langdetect_detect rt text of
                  Inr lang \<Rightarrow> metadata(''detected_language'' \<mapsto> PStr lang)
                | Inl e \<Rightarrow> metadata)
          else metadata)"

text \<open>\<open>TXTParser.validate\<close>; it decodes first when nothing has been decoded yet.\<close>

definition txt_validate :: "txt_runtime \<Rightarrow> txt_parser \<Rightarrow> (exn + bool) \<times> txt_parser" where
  "txt_validate rt self =
     (if txt_content self = None \<or> txt_content self = Some []
      then (Inl (Exn ValidationError (lit ''Empty TXT content'')), self)
      else
        let step = (if txt_decoded_content self = None
                    then detect_and_decode_content rt self
                    else (Inr (), self))
        in
        case fst step of
          Inl e \<Rightarrow> (Inl e, snd step)
        | Inr u \<Rightarrow>
            (case txt_decoded_content (snd step) of
               None \<Rightarrow> (Inl (Exn ValidationError
                                (lit ''TXT content is empty after decoding'')), snd step)
             | Some text \<Rightarrow>
                 if strip text = []
                 then (Inl (Exn ValidationError
                              (lit ''TXT content is empty after decoding'')), snd step)
                 else (Inr True, snd step)))"

subsection \<open>parse\<close>

record 's txt_result =
  res_content :: pystr
  res_structure :: 's
  res_metadata :: metadata
  res_encoding :: pystr
  res_confidence :: "rat option"

text \<open>
  The body of the \<open>try\<close> block of \<open>TXTParser.parse\<close>. \<open>_extract_structure\<close> computes the
  headers, lists, paragraphs and sections from the decoded text and raises nothing; it is
  the parameter \<open>extract_structure\<close>, and the structure it returns is kept as it is.
\<close>

definition txt_parse_body ::
  "txt_runtime \<Rightarrow> (pystr option \<Rightarrow> 's) \<Rightarrow> txt_parser \<Rightarrow> pybytes
     \<Rightarrow> (exn + 's txt_result) \<times> txt_parser" where
  "txt_parse_body rt extract_structure self content =
     (if content = blit ''This is not a valid document''
      then (Inl (Exn TXTParsingError (lit ''Invalid document format'')), self)
      else
        let step = detect_and_decode_content rt self in
        case fst step of
          Inl e \<Rightarrow> (Inl e, snd step)
        | Inr u \<Rightarrow>
            if (case txt_decoded_content (snd step) of
                  None \<Rightarrow> True
                | Some text \<Rightarrow> text = [] \<or> length (strip text) < 2)
            then (Inl (Exn TXTParsingError (lit ''Invalid or empty TXT content'')), snd step)
            else
              let structure = extract_structure (txt_decoded_content (snd step));
                  valid = txt_validate rt (snd step)
              in
              case fst valid of
                Inl e \<Rightarrow> (Inl e, snd valid)
              | Inr ok \<Rightarrow>
                  (Inr \<lparr>res_content = normalize_text (txt_decoded_content (snd valid)),
                        res_structure = structure,
                        res_metadata = txt_extract_metadata rt (snd valid),
                        res_encoding = txt_encoding (snd valid),
                        res_confidence = txt_confidence (snd valid)\<rparr>,
                   snd valid))"

text \<open>
  \<open>TXTParser.parse\<close>: \<open>_set_content\<close>, the \<open>try\<close> block, and its two handlers in the
  order of the source: \<open>except UnicodeDecodeError\<close>, then \<open>except Exception\<close>.
\<close>

definition txt_parse ::
  "txt_runtime \<Rightarrow> (pystr option \<Rightarrow> 's) \<Rightarrow> txt_parser \<Rightarrow> pybytes
     \<Rightarrow> (exn + 's txt_result) \<times> txt_parser" where
  "txt_parse rt extract_structure self0 content =
     (let self = self0\<lparr>txt_content := Some content\<rparr>;
          attempt = txt_parse_body rt extract_structure self content
      in
      case fst attempt of
        Inr result \<Rightarrow> (Inr result, snd attempt)
      | Inl e \<Rightarrow>
          if caught_by e UnicodeDecodeError
          then (Inl (Exn TXTEncodingError
                  (lit ''Failed to decode TXT with encoding '' @ txt_encoding (snd attempt))),
                snd attempt)
          else if caught_by e Exception
          then (Inl (Exn TXTParsingError
                  (lit ''Failed to parse TXT document: '' @ msg e)), snd attempt)
          else (Inl e, snd attempt))"

text \<open>
  A runtime for concrete runs: \<open>chardet\<close> reports UTF-8 with confidence 0.87625 (what its
  UTF-8 prober gives for three multi-byte characters), decoding is strict UTF-8, and
  \<open>langdetect\<close> is not installed.
\<close>

definition utf8_runtime :: txt_runtime where
  "utf8_runtime =
     \<lparr>chardet_detect = (\<lambda>content. (Some (lit ''utf-8''), 701 / 800)),
      bytes_decode = (\<lambda>content encoding.
         case utf8_decode content of
           Some text \<Rightarrow> Inr text
         | None \<Rightarrow> Inl (Exn UnicodeDecodeError (lit ''invalid start byte''))),
      decode_utf8_replace = (\<lambda>content. map unat content),
      str_lower = ascii_lower,
      re_word_char = (\<lambda>c. (48 \<le> c \<and> c \<le> 57) \<or> (65 \<le> c \<and> c \<le> 90) \<or> c = 95
                          \<or> (97 \<le> c \<and> c \<le> 122)),
      langdetect_detect = (\<lambda>text. Inl (Exn ImportError (lit ''No module named langdetect'')))\<rparr>"

section \<open>Numbers and dates\<close>

text \<open>
  \<open>int(s)\<close> for a \<open>str\<close>, as CPython 3.11 computes it (Unicode 14.0); \<open>None\<close> stands
  for the \<open>ValueError\<close>. Surrounding whitespace is removed: the ASCII characters 9-13
  and 32 and the non-ASCII Unicode whitespace, but not the separators 28-31, which
  \<open>str.strip()\<close> removes and \<open>int()\<close> rejects. Then come an optional sign and decimal
  digits, which may be separated by single underscores. A digit is any character of the
  Unicode category Nd: the ten code points from each of the zeros listed in
  \<open>decimal_zeros\<close>. More than 4300 digits are refused.
  The functions that call \<open>int()\<close> take it as the parameter \<open>str_int\<close>, so that what is
  proved of them holds for every version of the table; \<open>py_int\<close> is used in the
  concrete runs.
\<close>

definition is_int_space :: "nat \<Rightarrow> bool" where
  "is_int_space c = (c \<in> {9, 10, 11, 12, 13, 32, 133, 160, 5760,
                          8192, 8193, 8194, 8195, 8196, 8197, 8198, 8199, 8200, 8201, 8202,
                          8232, 8233, 8239, 8287, 12288})"

definition int_strip :: "pystr \<Rightarrow> pystr" where
  "int_strip s = rev (dropWhile is_int_space (rev (dropWhile is_int_space s)))"

definition decimal_zeros :: "nat list" where
  "decimal_zeros =
     [0x30, 0x660, 0x6F0, 0x7C0, 0x966, 0x9E6, 0xA66, 0xAE6, 0xB66, 0xBE6, 0xC66, 0xCE6,
      0xD66, 0xDE6, 0xE50, 0xED0, 0xF20, 0x1040, 0x1090, 0x17E0, 0x1810, 0x1946, 0x19D0,
      0x1A80, 0x1A90, 0x1B50, 0x1BB0, 0x1C40, 0x1C50, 0xA620, 0xA8D0, 0xA900, 0xA9D0,
      0xA9F0, 0xAA50, 0xABF0, 0xFF10, 0x104A0, 0x10D30, 0x11066, 0x110F0, 0x11136,
      0x111D0, 0x112F0, 0x11450, 0x114D0, 0x11650, 0x116C0, 0x11730, 0x118E0, 0x11950,
      0x11C50, 0x11D50, 0x11DA0, 0x16A60, 0x16AC0, 0x16B50, 0x1D7CE, 0x1D7D8, 0x1D7E2,
      0x1D7EC, 0x1D7F6, 0x1E140, 0x1E2F0, 0x1E950, 0x1FBF0]"

definition decimal_value :: "nat \<Rightarrow> nat option" where
  "decimal_value c =
     (case filter (\<lambda>z. z \<le> c \<and> c < z + 10) decimal_zeros of
        [] \<Rightarrow> None
      | z # zs \<Rightarrow> Some (c - z))"

fun digits_value :: "nat \<Rightarrow> pystr \<Rightarrow> nat option" where
  "digits_value acc [] = None"
| "digits_value acc (c # rest) =
     (case decimal_value c of
        None \<Rightarrow> None
      | Some v \<Rightarrow>
          (case rest of
             [] \<Rightarrow> Some (acc * 10 + v)
           | d # rest' \<Rightarrow>
               if d = 95 then digits_value (acc * 10 + v) rest'
               else digits_value (acc * 10 + v) rest))"

definition is_decimal :: "nat \<Rightarrow> bool" where
  "is_decimal c = (decimal_value c \<noteq> None)"

definition py_int :: "pystr \<Rightarrow> int option" where
  "py_int s =
     (let t = int_strip s in
      if 4300 < length (filter is_decimal t) then None
      else
        (case t of
           [] \<Rightarrow> None
         | c # cs \<Rightarrow>
             if c = 45 then map_option (\<lambda>n. - int n) (digits_value 0 cs)
             else if c = 43 then map_option int (digits_value 0 cs)
             else map_option int (digits_value 0 (c # cs))))"

text \<open>The decimal digits of \<open>n\<close>, zero-padded to the given width (\<open>%04d\<close>, \<open>%02d\<close>).\<close>

fun pad_digits :: "nat \<Rightarrow> nat \<Rightarrow> pystr" where
  "pad_digits 0 n = []"
| "pad_digits (Suc w) n = pad_digits w (n div 10) @ [48 + n mod 10]"

text \<open>
  \<open>datetime(year, month, day, hour, minute, second)\<close> raises \<open>ValueError\<close> unless the
  fields are in range; \<open>isoformat()\<close> of a naive datetime without microseconds is
  \<open>YYYY-MM-DDTHH:MM:SS\<close>.
\<close>

definition is_leap :: "int \<Rightarrow> bool" where
  "is_leap y = (if y mod 400 = 0 then True else if y mod 100 = 0 then False else y mod 4 = 0)"

definition days_in_month :: "int \<Rightarrow> int \<Rightarrow> int" where
  "days_in_month y m =
     (if m = 2 then (if is_leap y then 29 else 28)
      else if m = 4 \<or> m = 6 \<or> m = 9 \<or> m = 11 then 30
      else 31)"

definition valid_datetime :: "int \<Rightarrow> int \<Rightarrow> int \<Rightarrow> int \<Rightarrow> int \<Rightarrow> int \<Rightarrow> bool" where
  "valid_datetime y m d h mi s =
     (1 \<le> y \<and> y \<le> 9999 \<and> 1 \<le> m \<and> m \<le> 12 \<and> 1 \<le> d \<and> d \<le> days_in_month y m
      \<and> 0 \<le> h \<and> h \<le> 23 \<and> 0 \<le> mi \<and> mi \<le> 59 \<and> 0 \<le> s \<and> s \<le> 59)"

definition isoformat :: "int \<Rightarrow> int \<Rightarrow> int \<Rightarrow> int \<Rightarrow> int \<Rightarrow> int \<Rightarrow> pystr" where
  "isoformat y m d h mi s =
     pad_digits 4 (nat y) @ lit ''-'' @ pad_digits 2 (nat m) @ lit ''-'' @ pad_digits 2 (nat d)
     @ lit ''T'' @ pad_digits 2 (nat h) @ lit '':'' @ pad_digits 2 (nat mi) @ lit '':''
     @ pad_digits 2 (nat s)"

text \<open>\<open>s[i:j]\<close> for \<open>0 \<le> i \<le> j\<close>.\<close>

definition slice :: "nat \<Rightarrow> nat \<Rightarrow> pystr \<Rightarrow> pystr" where
  "slice i j s = take (j - i) (drop i s)"

text \<open>\<open>pat in s\<close> for strings.\<close>

fun is_substring :: "pystr \<Rightarrow> pystr \<Rightarrow> bool" where
  "is_substring pat [] = (pat = [])"
| "is_substring pat (c # cs) = (take (length pat) (c # cs) = pat \<or> is_substring pat cs)"

section \<open>The PDF parser (app/services/pdf_parser.py)\<close>

subsection \<open>What PyPDF2 gives\<close>

text \<open>
  A page: \<open>page.extract_text()\<close>, the pair \<open>(page.mediabox.width, page.mediabox.height)\<close>
  and \<open>page.get('/Rotate')\<close>; the first two may raise.
\<close>

record pdf_page =
  page_extract_text :: "exn + pystr"
  page_mediabox :: "exn + rat \<times> rat"
  page_rotate :: "int option"

text \<open>
  An outline object: a list, a dictionary-like item with its \<open>/Title\<close>, \<open>/Page\<close> and
  \<open>/Kids\<close> entries where present, or anything else.
\<close>

datatype outline_obj =
    OutlineList "outline_obj list"
  | OutlineItem "pystr option" "int option" "outline_obj option"
  | OutlineOther

text \<open>
  A \<open>PdfReader\<close>: \<open>is_encrypted\<close>, \<open>pages\<close>, \<open>metadata\<close> (the document information
  dictionary, or \<open>None\<close>) and \<open>outline\<close>. Reading \<open>pages\<close>, \<open>metadata\<close> or \<open>outline\<close>
  may raise.
\<close>

record pdf_reader =
  reader_is_encrypted :: bool
  reader_pages :: "exn + pdf_page list"
  reader_metadata :: "exn + (string \<rightharpoonup> pystr) option"
  reader_outline :: "exn + outline_obj list"

subsection \<open>Dates\<close>

text \<open>
  \<open>PDFParser._parse_pdf_date\<close>. The result is \<open>None\<close> when the function falls off its
  end and returns Python's \<open>None\<close>; the bare \<open>except\<close> turns every exception of the
  conversions into the empty string.
\<close>

definition parse_pdf_date :: "(pystr \<Rightarrow> int option) \<Rightarrow> pystr \<Rightarrow> pystr option" where
  "parse_pdf_date str_int date_str0 =
     (let date_str = (if take 2 date_str0 = lit ''D:'' then drop 2 date_str0 else date_str0)
      in
      if 14 \<le> length date_str
      then
        (case str_int (slice 0 4 date_str) of None \<Rightarrow> Some [] | Some year \<Rightarrow>
         case str_int (slice 4 6 date_str) of None \<Rightarrow> Some [] | Some month \<Rightarrow>
         case str_int (slice 6 8 date_str) of None \<Rightarrow> Some [] | Some day \<Rightarrow>
         case str_int (slice 8 10 date_str) of None \<Rightarrow> Some [] | Some hour \<Rightarrow>
         case str_int (slice 10 12 date_str) of None \<Rightarrow> Some [] | Some minute \<Rightarrow>
         case str_int (slice 12 14 date_str) of None \<Rightarrow> Some [] | Some second \<Rightarrow>
           if valid_datetime year month day hour minute second
           then Some (isoformat year month day hour minute second)
           else Some [])
      else None)"

subsection \<open>The parser\<close>

text \<open>
  The fields of a \<open>PDFParser\<close> instance; both are \<open>None\<close> after \<open>__init__\<close>
  (\<open>_content\<close> is the content buffer of the base class, see the TXT parser).
\<close>

record pdf_parser =
  pdf_content :: "pybytes option"
  pdf_reader_field :: "pdf_reader option"

definition new_pdf_parser :: pdf_parser where
  "new_pdf_parser = \<lparr>pdf_content = None, pdf_reader_field = None\<rparr>"

text \<open>
  The loop of \<open>_extract_text\<close>: a page whose extraction raises is skipped, as is a page
  with empty text.
\<close>

fun page_texts :: "pdf_page list \<Rightarrow> pystr list" where
  "page_texts [] = []"
| "page_texts (p # ps) =
     (case page_extract_text p of
        Inl e \<Rightarrow> page_texts ps
      | Inr page_text \<Rightarrow> if page_text = [] then page_texts ps else page_text # page_texts ps)"

text \<open>\<open>PDFParser._extract_text\<close>.\<close>

definition pdf_extract_text :: "pdf_parser \<Rightarrow> exn + pystr" where
  "pdf_extract_text self =
     (case pdf_reader_field self of
        None \<Rightarrow> Inl (Exn PDFParsingError (lit ''No PDF loaded for text extraction''))
      | Some reader \<Rightarrow>
          (case reader_pages reader of
             Inl e \<Rightarrow> Inl (Exn PDFParsingError (lit ''Failed to extract text: '' @ msg e))
           | Inr pages \<Rightarrow> Inr (join (lit ''\<newline>\<newline>'') (page_texts pages))))"

record page_info =
  info_number :: nat
  info_size :: "rat \<times> rat"
  info_rotation :: int

datatype outline_entry = OutlineEntry pystr "int option" "outline_entry list option"

record pdf_structure =
  struct_pages :: "page_info list"
  struct_sections :: "pystr list"
  struct_images :: "pystr list"
  struct_outline :: "outline_entry list option"

definition default_pdf_structure :: pdf_structure where
  "default_pdf_structure =
     \<lparr>struct_pages = [], struct_sections = [], struct_images = [], struct_outline = None\<rparr>"

text \<open>
  The page loop of \<open>_extract_structure\<close>, from page number \<open>n\<close>; an exception of
  \<open>page.mediabox\<close> leaves the loop.
\<close>

fun page_infos :: "nat \<Rightarrow> pdf_page list \<Rightarrow> exn + page_info list" where
  "page_infos n [] = Inr []"
| "page_infos n (p # ps) =
     (case page_mediabox p of
        Inl e \<Rightarrow> Inl e
      | Inr box \<Rightarrow>
          (case page_infos (Suc n) ps of
             Inl e \<Rightarrow> Inl e
           | Inr infos \<Rightarrow>
               Inr (\<lparr>info_number = n, info_size = box,
                     info_rotation = (case page_rotate p of None \<Rightarrow> 0 | Some r \<Rightarrow> r)\<rparr>
                    # infos)))"

text \<open>\<open>PDFParser._extract_outline\<close>: the result for a non-list argument is empty.\<close>

fun extract_outline :: "outline_obj \<Rightarrow> outline_entry list" where
  "extract_outline (OutlineList items) =
     concat (map (\<lambda>item.
        case item of
          OutlineItem title page kids \<Rightarrow>
            (case title of
               None \<Rightarrow> []
             | Some t \<Rightarrow> [OutlineEntry t page (map_option extract_outline kids)])
        | OutlineList sub \<Rightarrow> extract_outline item
        | OutlineOther \<Rightarrow> []) items)"
| "extract_outline (OutlineItem title page kids) = []"
| "extract_outline OutlineOther = []"

text \<open>
  \<open>PDFParser._extract_structure\<close>. \<open>hasattr(reader, 'outline')\<close> is false when reading
  the attribute raises \<open>AttributeError\<close> and lets every other exception through to the
  handler, which returns the default structure.
\<close>

definition pdf_extract_structure :: "pdf_parser \<Rightarrow> exn + pdf_structure" where
  "pdf_extract_structure self =
     (case pdf_reader_field self of
        None \<Rightarrow> Inl (Exn PDFParsingError (lit ''No PDF loaded for structure extraction''))
      | Some reader \<Rightarrow>
          (case reader_pages reader of
             Inl e \<Rightarrow> Inr default_pdf_structure
           | Inr pages \<Rightarrow>
               (case page_infos 1 pages of
                  Inl e \<Rightarrow> Inr default_pdf_structure
                | Inr infos \<Rightarrow>
                    (case reader_outline reader of
                       Inl e \<Rightarrow>
                         if caught_by e AttributeError
                         then Inr (default_pdf_structure\<lparr>struct_pages := infos\<rparr>)
                         else Inr default_pdf_structure
                     | Inr outline \<Rightarrow>
                         if outline = []
                         then Inr (default_pdf_structure\<lparr>struct_pages := infos\<rparr>)
                         else Inr (default_pdf_structure
                                     \<lparr>struct_pages := infos,
                                      struct_outline :=
                                        Some (extract_outline (OutlineList outline))\<rparr>)))))"

text \<open>
  One \<open>if info.get(key): metadata[name] = info.get(key)\<close> step, and one date step:
  the date is stored when \<open>_parse_pdf_date\<close> returns a non-empty string.
\<close>

definition copy_field :: "(string \<rightharpoonup> pystr) \<Rightarrow> string \<Rightarrow> string \<Rightarrow> metadata \<Rightarrow> metadata" where
  "copy_field info key name metadata =
     (case info key of
        None \<Rightarrow> metadata
      | Some v \<Rightarrow> if v = [] then metadata else metadata(name \<mapsto> PStr v))"

definition copy_date ::
  "(pystr \<Rightarrow> int option) \<Rightarrow> (string \<rightharpoonup> pystr) \<Rightarrow> string \<Rightarrow> string \<Rightarrow> metadata \<Rightarrow> metadata" where
  "copy_date str_int info key name metadata =
     (case info key of
        None \<Rightarrow> metadata
      | Some v \<Rightarrow>
          if v = [] then metadata
          else (case parse_pdf_date str_int v of
                  None \<Rightarrow> metadata
                | Some date \<Rightarrow> if date = [] then metadata else metadata(name \<mapsto> PStr date)))"

text \<open>\<open>PDFParser.extract_metadata\<close>.\<close>

definition pdf_extract_metadata :: "(pystr \<Rightarrow> int option) \<Rightarrow> pdf_parser \<Rightarrow> exn + metadata" where
  "pdf_extract_metadata str_int self =
     (case pdf_reader_field self of
        None \<Rightarrow> Inl (Exn PDFParsingError (lit ''No PDF loaded for metadata extraction''))
      | Some reader \<Rightarrow>
          (case reader_metadata reader of
             Inl e \<Rightarrow> Inr Map.empty
           | Inr None \<Rightarrow> Inr Map.empty
           | Inr (Some info) \<Rightarrow>
               let metadata =
                     copy_date str_int info ''/ModDate'' ''modification_date''
                      (copy_date str_int info ''/CreationDate'' ''creation_date''
                       (copy_field info ''/Creator'' ''creator''
                        (copy_field info ''/Producer'' ''producer''
                         (copy_field info ''/Keywords'' ''keywords''
                          (copy_field info ''/Subject'' ''subject''
                           (copy_field info ''/Author'' ''author''
                            (copy_field info ''/Title'' ''title'' Map.empty)))))))
               in
               (case reader_pages reader of
                  Inl e \<Rightarrow> Inr Map.empty
                | Inr pages \<Rightarrow> Inr (metadata(''page_count'' \<mapsto> PInt (int (length pages)))))))"

record pdf_result =
  pdf_res_content :: pystr
  pdf_res_structure :: pdf_structure
  pdf_res_metadata :: metadata

text \<open>
  The body of the \<open>try\<close> block of \<open>PDFParser.parse\<close>, with the instance as it leaves it.
  \<open>open_pdf\<close> is \<open>PyPDF2.PdfReader(io.BytesIO(content))\<close>.
\<close>

definition pdf_parse_body ::
  "(pybytes \<Rightarrow> exn + pdf_reader) \<Rightarrow> (pystr \<Rightarrow> int option) \<Rightarrow> pdf_parser \<Rightarrow> pybytes
     \<Rightarrow> (exn + pdf_result) \<times> pdf_parser" where
  "pdf_parse_body open_pdf str_int self0 content =
     (let self1 = self0\<lparr>pdf_content := Some content\<rparr> in
      case open_pdf content of
        Inl e \<Rightarrow> (Inl e, self1)
      | Inr reader \<Rightarrow>
          let self = self1\<lparr>pdf_reader_field := Some reader\<rparr> in
          if reader_is_encrypted reader
          then (Inl (Exn PDFEncryptedError (lit ''Cannot parse encrypted PDF'')), self)
          else
            (case pdf_extract_text self of
               Inl e \<Rightarrow> (Inl e, self)
             | Inr parsed_content \<Rightarrow>
                 (case pdf_extract_structure self of
                    Inl e \<Rightarrow> (Inl e, self)
                  | Inr structure \<Rightarrow>
                      (case pdf_extract_metadata str_int self of
                         Inl e \<Rightarrow> (Inl e, self)
                       | Inr metadata \<Rightarrow>
                           (Inr \<lparr>pdf_res_content = parsed_content,
                                 pdf_res_structure = structure,
                                 pdf_res_metadata = metadata\<rparr>, self)))))"

text \<open>
  \<open>PDFParser.parse\<close>: the \<open>try\<close> block and its three handlers in the order of the
  source.
\<close>

definition pdf_parse ::
  "(pybytes \<Rightarrow> exn + pdf_reader) \<Rightarrow> (pystr \<Rightarrow> int option) \<Rightarrow> pdf_parser \<Rightarrow> pybytes
     \<Rightarrow> (exn + pdf_result) \<times> pdf_parser" where
  "pdf_parse open_pdf str_int self content =
     (let attempt = pdf_parse_body open_pdf str_int self content in
      case fst attempt of
        Inr result \<Rightarrow> (Inr result, snd attempt)
      | Inl e \<Rightarrow>
          if caught_by e PdfReadError
          then (Inl (Exn PDFDamagedError (lit ''Failed to read PDF: '' @ msg e)), snd attempt)
          else if caught_by e AttributeError \<or> caught_by e ValueError \<or> caught_by e TypeError
          then (if is_substring (lit ''seek'') (msg e)
                then (Inl (Exn PDFDamagedError (lit ''Invalid PDF format: '' @ msg e)),
                      snd attempt)
                else (Inl (Exn PDFParsingError (lit ''PDF parsing failed: '' @ msg e)),
                      snd attempt))
          else if caught_by e Exception
          then (Inl (Exn PDFParsingError (lit ''PDF parsing failed: '' @ msg e)), snd attempt)
          else (Inl e, snd attempt))"

section \<open>The DOCX parser (app/services/docx_parser.py)\<close>

subsection \<open>What python-docx gives\<close>

text \<open>
  A paragraph with its text and the name of its style; a table with the cell texts of
  its rows and \<open>len(table.columns)\<close>; a section with its page width and height in EMU
  (either may be \<open>None\<close>); the core properties, whose text fields are empty when
  absent and whose dates are \<open>None\<close> when absent. A date is a \<open>datetime\<close> object, of
  which the parser uses only \<open>dt.isoformat()\<close>: it is given by that text.
\<close>

record docx_paragraph =
  para_text :: pystr
  para_style_name :: pystr

record docx_table =
  table_rows :: "pystr list list"
  table_columns :: nat

record docx_section =
  sect_page_width :: "int option"
  sect_page_height :: "int option"

record core_properties =
  prop_title :: pystr
  prop_author :: pystr
  prop_subject :: pystr
  prop_keywords :: pystr
  prop_category :: pystr
  prop_comments :: pystr
  prop_created :: "pystr option"
  prop_modified :: "pystr option"
  prop_last_printed :: "pystr option"

text \<open>A \<open>Document\<close>; reading \<open>core_properties\<close> may raise.\<close>

record docx_document =
  doc_paragraphs :: "docx_paragraph list"
  doc_tables :: "docx_table list"
  doc_sections :: "docx_section list"
  doc_core_properties :: "exn + core_properties"

subsection \<open>The parser\<close>

record docx_parser =
  docx_content :: "pybytes option"
  docx_doc :: "docx_document option"

definition new_docx_parser :: docx_parser where
  "new_docx_parser = \<lparr>docx_content = None, docx_doc = None\<rparr>"

text \<open>
  The body of the row loop of \<open>_extract_text\<close>: the stripped texts of the cells that
  are not blank, joined by " | "; a row without such a cell gives no line.
\<close>

definition row_text :: "pystr list \<Rightarrow> pystr list" where
  "row_text cells = map strip (filter (\<lambda>cell. strip cell \<noteq> []) cells)"

definition row_lines :: "pystr list \<Rightarrow> pystr list" where
  "row_lines cells = (if row_text cells = [] then [] else [join (lit '' | '') (row_text cells)])"

definition paragraph_lines :: "docx_document \<Rightarrow> pystr list" where
  "paragraph_lines doc =
     map para_text (filter (\<lambda>para. strip (para_text para) \<noteq> []) (doc_paragraphs doc))"

definition table_lines :: "docx_document \<Rightarrow> pystr list" where
  "table_lines doc =
     concat (map (\<lambda>table. concat (map row_lines (table_rows table))) (doc_tables doc))"

text \<open>\<open>DOCXParser._extract_text\<close>.\<close>

definition docx_extract_text :: "docx_parser \<Rightarrow> exn + pystr" where
  "docx_extract_text self =
     (case docx_doc self of
        None \<Rightarrow> Inl (Exn DOCXParsingError (lit ''No document loaded for text extraction''))
      | Some doc \<Rightarrow> Inr (join (lit ''\<newline>'') (paragraph_lines doc @ table_lines doc)))"

record section_info =
  sinfo_number :: nat
  sinfo_page_width :: rat
  sinfo_page_height :: rat
  sinfo_orientation :: pystr

record heading_info =
  hinfo_level :: int
  hinfo_text :: pystr
  hinfo_position :: nat

record table_info =
  tinfo_number :: nat
  tinfo_rows :: nat
  tinfo_columns :: nat

record docx_structure =
  dstruct_sections :: "section_info list"
  dstruct_headings :: "heading_info list"
  dstruct_tables :: "table_info list"
  dstruct_lists :: "pystr list"

definition default_docx_structure :: docx_structure where
  "default_docx_structure =
     \<lparr>dstruct_sections = [], dstruct_headings = [], dstruct_tables = [], dstruct_lists = []\<rparr>"

text \<open>
  The section loop, from section number \<open>n\<close>. \<open>Length.pt\<close> is the EMU value divided
  by 12700. \<open>None\<close> stands for the \<open>AttributeError\<close> of a missing width or height.
\<close>

fun section_infos :: "nat \<Rightarrow> docx_section list \<Rightarrow> section_info list option" where
  "section_infos n [] = Some []"
| "section_infos n (s # ss) =
     (case sect_page_width s of
        None \<Rightarrow> None
      | Some w \<Rightarrow>
          (case sect_page_height s of
             None \<Rightarrow> None
           | Some h \<Rightarrow>
               (case section_infos (Suc n) ss of
                  None \<Rightarrow> None
                | Some infos \<Rightarrow>
                    Some (\<lparr>sinfo_number = n,
                           sinfo_page_width = of_int w / 12700,
                           sinfo_page_height = of_int h / 12700,
                           sinfo_orientation =
                             (if w < h then lit ''portrait'' else lit ''landscape'')\<rparr>
                          # infos))))"

text \<open>\<open>s.replace(pat, '')\<close> for a non-empty \<open>pat\<close>.\<close>

function remove_all :: "pystr \<Rightarrow> pystr \<Rightarrow> pystr" where
  "remove_all pat [] = []"
| "remove_all pat (c # cs) =
     (if pat \<noteq> [] \<and> take (length pat) (c # cs) = pat
      then remove_all pat (drop (length pat) (c # cs))
      else c # remove_all pat cs)"
  by pat_completeness auto
termination
  by (relation "measure (\<lambda>(pat, s). length s)") auto

text \<open>
  The heading loop, from paragraph index \<open>i\<close>. \<open>None\<close> stands for the \<open>ValueError\<close>
  of \<open>int()\<close> on a style name such as "Heading" or "Heading 1 Char".
\<close>

fun heading_infos ::
  "(pystr \<Rightarrow> int option) \<Rightarrow> nat \<Rightarrow> docx_paragraph list \<Rightarrow> heading_info list option" where
  "heading_infos str_int i [] = Some []"
| "heading_infos str_int i (para # paras) =
     (if take 7 (para_style_name para) = lit ''Heading''
      then
        (case str_int (remove_all (lit ''Heading '') (para_style_name para)) of
           None \<Rightarrow> None
         | Some level \<Rightarrow>
             (case heading_infos str_int (Suc i) paras of
                None \<Rightarrow> None
              | Some infos \<Rightarrow>
                  Some (\<lparr>hinfo_level = level, hinfo_text = para_text para,
                         hinfo_position = i\<rparr> # infos)))
      else heading_infos str_int (Suc i) paras)"

fun table_infos :: "nat \<Rightarrow> docx_table list \<Rightarrow> table_info list" where
  "table_infos n [] = []"
| "table_infos n (t # ts) =
     \<lparr>tinfo_number = n, tinfo_rows = length (table_rows t), tinfo_columns = table_columns t\<rparr>
     # table_infos (Suc n) ts"

text \<open>\<open>DOCXParser._extract_structure\<close>.\<close>

definition docx_extract_structure ::
  "(pystr \<Rightarrow> int option) \<Rightarrow> docx_parser \<Rightarrow> exn + docx_structure" where
  "docx_extract_structure str_int self =
     (case docx_doc self of
        None \<Rightarrow> Inl (Exn DOCXParsingError (lit ''No document loaded for structure extraction''))
      | Some doc \<Rightarrow>
          (case section_infos 1 (doc_sections doc) of
             None \<Rightarrow> Inr default_docx_structure
           | Some sections \<Rightarrow>
               (case heading_infos str_int 0 (doc_paragraphs doc) of
                  None \<Rightarrow> Inr default_docx_structure
                | Some headings \<Rightarrow>
                    Inr \<lparr>dstruct_sections = sections, dstruct_headings = headings,
                         dstruct_tables = table_infos 1 (doc_tables doc),
                         dstruct_lists = []\<rparr>)))"

text \<open>
  One \<open>if props.x: metadata[name] = props.x\<close> step and one date step
  (\<open>_format_datetime\<close> is \<open>dt.isoformat()\<close>).
\<close>

definition set_text :: "string \<Rightarrow> pystr \<Rightarrow> metadata \<Rightarrow> metadata" where
  "set_text name v metadata = (if v = [] then metadata else metadata(name \<mapsto> PStr v))"

definition set_date :: "string \<Rightarrow> pystr option \<Rightarrow> metadata \<Rightarrow> metadata" where
  "set_date name dt metadata =
     (case dt of
        None \<Rightarrow> metadata
      | Some date_text \<Rightarrow> metadata(name \<mapsto> PStr date_text))"

text \<open>\<open>DOCXParser.extract_metadata\<close>.\<close>

definition docx_extract_metadata :: "docx_parser \<Rightarrow> exn + metadata" where
  "docx_extract_metadata self =
     (case docx_doc self of
        None \<Rightarrow> Inl (Exn DOCXParsingError (lit ''No document loaded for metadata extraction''))
      | Some doc \<Rightarrow>
          (case doc_core_properties doc of
             Inl e \<Rightarrow> Inr Map.empty
           | Inr props \<Rightarrow>
               Inr ((set_date ''last_printed'' (prop_last_printed props)
                     (set_date ''modification_date'' (prop_modified props)
                      (set_date ''creation_date'' (prop_created props)
                       (set_text ''comments'' (prop_comments props)
                        (set_text ''category'' (prop_category props)
                         (set_text ''keywords'' (prop_keywords props)
                          (set_text ''subject'' (prop_subject props)
                           (set_text ''author'' (prop_author props)
                            (set_text ''title'' (prop_title props) Map.empty)))))))))
                    (''paragraph_count'' \<mapsto> PInt (int (length (doc_paragraphs doc))),
                     ''table_count'' \<mapsto> PInt (int (length (doc_tables doc))),
                     ''section_count'' \<mapsto> PInt (int (length (doc_sections doc)))))))"

record docx_result =
  docx_res_content :: pystr
  docx_res_structure :: docx_structure
  docx_res_metadata :: metadata

text \<open>
  The body of the \<open>try\<close> block of \<open>DOCXParser.parse\<close>; \<open>open_docx\<close> is
  \<open>Document(io.BytesIO(content))\<close>.
\<close>

definition docx_parse_body ::
  "(pybytes \<Rightarrow> exn + docx_document) \<Rightarrow> (pystr \<Rightarrow> int option) \<Rightarrow> docx_parser \<Rightarrow> pybytes
     \<Rightarrow> (exn + docx_result) \<times> docx_parser" where
  "docx_parse_body open_docx str_int self0 content =
     (let self1 = self0\<lparr>docx_content := Some content\<rparr> in
      case open_docx content of
        Inl e \<Rightarrow> (Inl e, self1)
      | Inr doc \<Rightarrow>
          let self = self1\<lparr>docx_doc := Some doc\<rparr> in
          (case docx_extract_text self of
             Inl e \<Rightarrow> (Inl e, self)
           | Inr parsed_content \<Rightarrow>
               (case docx_extract_structure str_int self of
                  Inl e \<Rightarrow> (Inl e, self)
                | Inr structure \<Rightarrow>
                    (case docx_extract_metadata self of
                       Inl e \<Rightarrow> (Inl e, self)
                     | Inr metadata \<Rightarrow>
                         (Inr \<lparr>docx_res_content = parsed_content,
                               docx_res_structure = structure,
                               docx_res_metadata = metadata\<rparr>, self)))))"

text \<open>\<open>DOCXParser.parse\<close> with its three handlers; \<open>lower\<close> is \<open>str.lower\<close>.\<close>

definition docx_parse ::
  "(pybytes \<Rightarrow> exn + docx_document) \<Rightarrow> (pystr \<Rightarrow> int option) \<Rightarrow> (pystr \<Rightarrow> pystr)
     \<Rightarrow> docx_parser \<Rightarrow> pybytes \<Rightarrow> (exn + docx_result) \<times> docx_parser" where
  "docx_parse open_docx str_int lower self content =
     (let attempt = docx_parse_body open_docx str_int self content in
      case fst attempt of
        Inr result \<Rightarrow> (Inr result, snd attempt)
      | Inl e \<Rightarrow>
          if caught_by e PackageNotFoundError
          then (Inl (Exn DOCXCorruptedError (lit ''Failed to read DOCX: '' @ msg e)), snd attempt)
          else if caught_by e ValueError \<or> caught_by e TypeError \<or> caught_by e AttributeError
          then (if is_substring (lit ''not a zip file'') (lower (msg e))
                then (Inl (Exn DOCXCorruptedError (lit ''Invalid DOCX format: '' @ msg e)),
                      snd attempt)
                else (Inl (Exn DOCXParsingError (lit ''DOCX parsing failed: '' @ msg e)),
                      snd attempt))
          else if caught_by e Exception
          then (Inl (Exn DOCXParsingError (lit ''DOCX parsing failed: '' @ msg e)), snd attempt)
          else (Inl e, snd attempt))"

section \<open>The parse methods of the simple parsers (app/services/document_parser.py)\<close>

text \<open>
  The sample text of \<open>PdfParser.parse\<close>. The literal of the source is a line break and
  16 spaces, the line "John Smith", the lines of \<open>sample_middle\<close> (each with its line
  break and its indentation of 16 spaces; the blank lines hold the 16 spaces too), the
  line "English (Native), Spanish (Intermediate)", and a line break and 16 spaces.
\<close>

definition sample_middle :: pystr where
  "sample_middle = lit
     (''\<newline>''
      @ ''                Software Engineer\<newline>''
      @ ''                john.smith@example.com\<newline>''
      @ ''                (555) 123-4567\<newline>''
      @ ''                New York, NY\<newline>''
      @ ''                linkedin.com/in/johnsmith\<newline>''
      @ ''                github.com/johnsmith\<newline>''
      @ ''                \<newline>''
      @ ''                Summary:\<newline>''
      @ ''                Experienced software engineer with 5+ years of experience in web development,\<newline>''
      @ ''                cloud technologies, and machine learning. Passionate about building scalable\<newline>''
      @ ''                and maintainable software solutions.\<newline>''
      @ ''                \<newline>''
      @ ''                Work Experience:\<newline>''
      @ ''                Senior Software Engineer\<newline>''
      @ ''                Tech Solutions Inc.\<newline>''
      @ ''                New York, NY\<newline>''
      @ ''                2018-01 - Present\<newline>''
      @ ''                - Led development of key features for the company'' @ [CHR 0x27] @ ''s flagship product\<newline>''
      @ ''                - Increased system performance by 30% through code optimization\<newline>''
      @ ''                - Mentored junior developers and conducted code reviews\<newline>''
      @ ''                \<newline>''
      @ ''                Software Developer\<newline>''
      @ ''                Innovative Systems\<newline>''
      @ ''                Boston, MA\<newline>''
      @ ''                2015-06 - 2017-12\<newline>''
      @ ''                - Developed and maintained web applications using React and Node.js\<newline>''
      @ ''                - Implemented CI/CD pipelines to improve deployment efficiency\<newline>''
      @ ''                \<newline>''
      @ ''                Education:\<newline>''
      @ ''                Bachelor of Science in Computer Science\<newline>''
      @ ''                University of Technology\<newline>''
      @ ''                Boston, MA\<newline>''
      @ ''                2011-09 - 2015-05\<newline>''
      @ ''                GPA: 3.8/4.0\<newline>''
      @ ''                \<newline>''
      @ ''                Skills:\<newline>''
      @ ''                Python, JavaScript, React, Node.js, AWS, Docker, Kubernetes, SQL, MongoDB\<newline>''
      @ ''                \<newline>''
      @ ''                Languages:\<newline>''
      @ ''                '')"

definition sample_text :: pystr where
  "sample_text =
     lit (''\<newline>'' @ ''                '') @ lit ''John Smith'' @ sample_middle
     @ lit ''English (Native), Spanish (Intermediate)''
     @ lit (''\<newline>'' @ ''                '')"

text \<open>
  The loop of \<open>PdfParser.parse\<close>: \<open>pdf_text += page.extract_text() + "\n"\<close>; an
  exception of a page leaves the loop.
\<close>

fun concat_page_texts :: "pdf_page list \<Rightarrow> exn + pystr" where
  "concat_page_texts [] = Inr []"
| "concat_page_texts (p # ps) =
     (case page_extract_text p of
        Inl e \<Rightarrow> Inl e
      | Inr t \<Rightarrow>
          (case concat_page_texts ps of
             Inl e \<Rightarrow> Inl e
           | Inr rest \<Rightarrow> Inr (t @ lit ''\<newline>'' @ rest)))"

text \<open>
  \<open>PdfParser.parse\<close>: every exception is caught and gives the empty string; a text of
  fewer than 100 characters after stripping is replaced by the sample text.
\<close>

definition simple_pdf_parse :: "(pybytes \<Rightarrow> exn + pdf_reader) \<Rightarrow> pybytes \<Rightarrow> pystr" where
  "simple_pdf_parse open_pdf content =
     (case open_pdf content of
        Inl e \<Rightarrow> []
      | Inr reader \<Rightarrow>
          (case reader_pages reader of
             Inl e \<Rightarrow> []
           | Inr pages \<Rightarrow>
               (case concat_page_texts pages of
                  Inl e \<Rightarrow> []
                | Inr pdf_text \<Rightarrow>
                    strip (if length (strip pdf_text) < 100 then sample_text else pdf_text))))"

text \<open>\<open>DocxParser.parse\<close>.\<close>

definition simple_docx_parse :: "(pybytes \<Rightarrow> exn + docx_document) \<Rightarrow> pybytes \<Rightarrow> pystr" where
  "simple_docx_parse open_docx content =
     (case open_docx content of
        Inl e \<Rightarrow> []
      | Inr doc \<Rightarrow>
          strip (concat (map (\<lambda>para. para_text para @ lit ''\<newline>'') (doc_paragraphs doc))))"

text \<open>\<open>TxtParser.parse\<close>.\<close>

definition simple_txt_parse :: "pybytes \<Rightarrow> pystr" where
  "simple_txt_parse content =
     (case utf8_decode content of
        None \<Rightarrow> []
      | Some txt_text \<Rightarrow> strip txt_text)"

text \<open>
  What a call of \<open>parse\<close> gives back to its caller: a result with content, structure
  and metadata, a plain string, or an exception.
\<close>

datatype 'd outcome = ReturnsDocument 'd | ReturnsString pystr | Raises exn

text \<open>\<open>parser.parse(content)\<close> for a parser that the factory has returned.\<close>

fun factory_parse ::
  "(pybytes \<Rightarrow> exn + pdf_reader) \<Rightarrow> (pybytes \<Rightarrow> exn + docx_document) \<Rightarrow> simple_parser
     \<Rightarrow> pybytes \<Rightarrow> 'd outcome" where
  "factory_parse open_pdf open_docx PdfParser content =
     ReturnsString (simple_pdf_parse open_pdf content)"
| "factory_parse open_pdf open_docx DocxParser content =
     ReturnsString (simple_docx_parse open_docx content)"
| "factory_parse open_pdf open_docx TxtParser content =
     ReturnsString (simple_txt_parse content)"

text \<open>The same for \<open>PDFParser.parse\<close> of pdf_parser.py.\<close>

definition pdf_parse_outcome ::
  "(pybytes \<Rightarrow> exn + pdf_reader) \<Rightarrow> (pystr \<Rightarrow> int option) \<Rightarrow> pdf_parser \<Rightarrow> pybytes
     \<Rightarrow> pdf_result outcome" where
  "pdf_parse_outcome open_pdf str_int self content =
     (case fst (pdf_parse open_pdf str_int self content) of
        Inr result \<Rightarrow> ReturnsDocument result
      | Inl e \<Rightarrow> Raises e)"

text \<open>
  The claimed contract of \<open>parse\<close>: a full document or a typed parsing error, never a
  bare string.
\<close>

fun document_or_typed_error :: "'d outcome \<Rightarrow> bool" where
  "document_or_typed_error (ReturnsDocument d) = True"
| "document_or_typed_error (Raises e) = caught_by e DocumentParsingError"
| "document_or_typed_error (ReturnsString s) = False"

section \<open>Library objects for concrete runs\<close>

text \<open>
  A reader of an unencrypted one-page PDF (US Letter, no information dictionary, no
  outline) whose page has the given text, and a document with one paragraph and the
  given tables (one Letter section, no core properties set).
\<close>

definition one_page_reader :: "pystr \<Rightarrow> pdf_reader" where
  "one_page_reader page_text =
     \<lparr>reader_is_encrypted = False,
      reader_pages = Inr [\<lparr>page_extract_text = Inr page_text,
                           page_mediabox = Inr (612, 792), page_rotate = None\<rparr>],
      reader_metadata = Inr None,
      reader_outline = Inr []\<rparr>"

definition one_paragraph_document :: "pystr \<Rightarrow> docx_table list \<Rightarrow> docx_document" where
  "one_paragraph_document text tables =
     \<lparr>doc_paragraphs = [\<lparr>para_text = text, para_style_name = lit ''Normal''\<rparr>],
      doc_tables = tables,
      doc_sections = [\<lparr>sect_page_width = Some 7772400, sect_page_height = Some 10058400\<rparr>],
      doc_core_properties =
        Inr \<lparr>prop_title = [], prop_author = [], prop_subject = [], prop_keywords = [],
             prop_category = [], prop_comments = [], prop_created = None,
             prop_modified = None, prop_last_printed = None\<rparr>\<rparr>"

text \<open>
  The table of the unit tests (two rows of two cells) and a one-row table whose first
  cell holds a single space and whose second cell holds " Total ".
\<close>

definition header_data_table :: docx_table where
  "header_data_table =
     \<lparr>table_rows = [[lit ''Header 1'', lit ''Header 2''], [lit ''Data 1'', lit ''Data 2'']],
      table_columns = 2\<rparr>"

definition padded_table :: docx_table where
  "padded_table = \<lparr>table_rows = [[lit '' '', lit '' Total '']], table_columns = 2\<rparr>"

section \<open>The table rule in the words of the spec\<close>

text \<open>
  The line of a table row as the spec words it: the non-empty cell texts joined by
  " | ", an empty cell skipped, and no line for a row without a non-empty cell. It is
  compared with \<open>row_lines\<close>, which is the code.
\<close>

definition spec_row_lines :: "pystr list \<Rightarrow> pystr list" where
  "spec_row_lines cells =
     (if filter (\<lambda>cell. cell \<noteq> []) cells = [] then []
      else [join (lit '' | '') (filter (\<lambda>cell. cell \<noteq> []) cells)])"

section \<open>Auxiliary predicates for the proofs\<close>

text \<open>No two adjacent spaces; no three adjacent LF; the length of the leading run of LF.\<close>

fun nodbl :: "pystr \<Rightarrow> bool" where
  "nodbl (a # b # cs) = ((a \<noteq> 32 \<or> b \<noteq> 32) \<and> nodbl (b # cs))"
| "nodbl _ = True"

fun no3 :: "pystr \<Rightarrow> bool" where
  "no3 (a # b # c # cs) = ((a \<noteq> 10 \<or> b \<noteq> 10 \<or> c \<noteq> 10) \<and> no3 (b # c # cs))"
| "no3 _ = True"

definition run10 :: "pystr \<Rightarrow> nat" where
  "run10 s = length (takeWhile (\<lambda>x. x = 10) s)"

section \<open>Properties of the factory\<close>

text \<open>
  C4 (as stated): a token whose lower-case form is "pdf", "docx" or "txt" gives the parser
  of that format, and every other token fails with an error carrying the token.
  The second half is false for a token with an upper-case letter: the error carries the
  lower-cased token. For the token "BOGUS" the message ends in "bogus".
\<close>

theorem create_parser_token_counterexample:
  "create_parser ascii_lower (lit ''BOGUS'')
     \<noteq> Inl (Exn ValueError (lit ''Unsupported file type: '' @ lit ''BOGUS''))
   \<and> create_parser ascii_lower (lit ''BOGUS'')
     = Inl (Exn ValueError (lit ''Unsupported file type: bogus''))"
  by (simp add: create_parser_def ascii_lower_def lit_def)

text \<open>
  C4 (amended): for every lower-casing function and every token, the factory returns the
  PDF, DOCX or TXT parser when the lower-case form of the token is "pdf", "docx" or "txt",
  and otherwise fails with a ValueError whose message is "Unsupported file type: "
  followed by the lower-case form of the token.
\<close>

theorem create_parser_cases:
  "create_parser lower t =
     (if lower t = lit ''pdf'' then Inr PdfParser
      else if lower t = lit ''docx'' then Inr DocxParser
      else if lower t = lit ''txt'' then Inr TxtParser
      else Inl (Exn ValueError (lit ''Unsupported file type: '' @ lower t)))"
  by (simp add: create_parser_def Let_def)

theorem create_parser_cases_witness:
  "create_parser ascii_lower (lit ''PDF'') = Inr PdfParser
   \<and> create_parser ascii_lower (lit ''Docx'') = Inr DocxParser
   \<and> create_parser ascii_lower (lit ''txt'') = Inr TxtParser
   \<and> create_parser ascii_lower (lit ''rtf'') = Inl (Exn ValueError (lit ''Unsupported file type: rtf''))"
  using create_parser_cases [of ascii_lower "lit ''PDF''"]
        create_parser_cases [of ascii_lower "lit ''Docx''"]
        create_parser_cases [of ascii_lower "lit ''txt''"]
        create_parser_cases [of ascii_lower "lit ''rtf''"]
  by (simp add: ascii_lower_def lit_def)


section \<open>Properties of the TXT parser\<close>

subsection \<open>Normalisation is idempotent\<close>

lemma sub_spaces_hd: "sub_spaces s = [] \<longleftrightarrow> s = []" "s \<noteq> [] \<Longrightarrow> hd (sub_spaces s) = hd s"
  by (cases s; simp)+

lemma nodbl_Cons: "nodbl (a # s) \<longleftrightarrow> (s = [] \<or> \<not> (a = 32 \<and> hd s = 32)) \<and> nodbl s"
  by (cases s) auto

lemma dropWhile_hd: "dropWhile P s = [] \<or> \<not> P (hd (dropWhile P s))"
  using hd_dropWhile by blast

lemma nodbl_not32: "a \<noteq> 32 \<Longrightarrow> nodbl (a # s) = nodbl s"
  by (cases s) auto

lemma nodbl_32: "nodbl (32 # s) = ((s = [] \<or> hd s \<noteq> 32) \<and> nodbl s)"
  by (cases s) auto

lemma nodbl_sub_spaces: "nodbl (sub_spaces s)"
proof (induction s rule: sub_spaces.induct)
  case 1 show ?case by simp
next
  case (2 c cs)
  show ?case
  proof (cases "c = 32")
    case True
    define d where "d = dropWhile (\<lambda>x. x = 32) cs"
    have "d = [] \<or> hd d \<noteq> 32" unfolding d_def using dropWhile_hd[of "\<lambda>x. x = 32" cs] by blast
    then have h: "sub_spaces d = [] \<or> hd (sub_spaces d) \<noteq> 32"
      using sub_spaces_hd[of d] by metis
    have ih: "nodbl (sub_spaces d)" using 2(1)[OF True] by (simp add: d_def)
    have "sub_spaces (c # cs) = 32 # sub_spaces d" using True by (simp add: d_def)
    then show ?thesis using h ih by (simp add: nodbl_32 del: sub_spaces.simps)
  next
    case False
    then have "sub_spaces (c # cs) = c # sub_spaces cs" by simp
    with 2(2)[OF False] False show ?thesis by (simp add: nodbl_not32 del: sub_spaces.simps)
  qed
qed

lemma sub_spaces_fix: "nodbl s \<Longrightarrow> sub_spaces s = s"
proof (induction s rule: sub_spaces.induct)
  case 1 show ?case by simp
next
  case (2 c cs)
  then show ?case by (cases cs) (auto)
qed


lemma nodbl_tl: "nodbl (a # s) \<Longrightarrow> nodbl s"
  by (cases s) auto

lemma nodbl_suffix: "nodbl (a @ b) \<Longrightarrow> nodbl b"
  by (induction a) (auto dest: nodbl_tl)

lemma nodbl_prefix: "nodbl (a @ b) \<Longrightarrow> nodbl a"
proof (induction a)
  case Nil show ?case by simp
next
  case (Cons x a)
  then show ?case by (cases a) auto
qed

lemma sle_hd: "(sub_line_endings s = []) = (s = [])"
  "s \<noteq> [] \<Longrightarrow> hd (sub_line_endings s) = (if hd s = 13 then 10 else hd s)"
  by (induction s rule: sub_line_endings.induct) auto

lemma sle_no13: "13 \<notin> set (sub_line_endings s)"
  by (induction s rule: sub_line_endings.induct) auto

lemma sle_fix: "13 \<notin> set s \<Longrightarrow> sub_line_endings s = s"
  by (induction s rule: sub_line_endings.induct) auto

lemma sle_nodbl_Cons:
  assumes "nodbl (c # t)" "nodbl (sub_line_endings t)"
  shows "nodbl ((if c = 13 then 10 else c) # sub_line_endings t)"
proof (cases "c = 32")
  case True
  then have "t = [] \<or> hd t \<noteq> 32" using assms(1) by (simp add: nodbl_32)
  then have "sub_line_endings t = [] \<or> hd (sub_line_endings t) \<noteq> 32"
    using sle_hd[of t] by (auto split: if_splits)
  with True assms(2) show ?thesis by (simp add: nodbl_32)
next
  case False
  then show ?thesis using assms(2) by (simp add: nodbl_not32)
qed

lemma sle_nodbl: "nodbl s \<Longrightarrow> nodbl (sub_line_endings s)"
proof (induction s rule: sub_line_endings.induct)
  case 1 show ?case by simp
next
  case (2 c) show ?case by simp
next
  case (3 c d cs)
  show ?case
  proof (cases "c = 13 \<and> d = 10")
    case True
    have "nodbl cs" using 3(4) nodbl_tl by blast
    then have "nodbl (sub_line_endings cs)" using 3(1) True by simp
    then show ?thesis using True by (simp add: nodbl_not32)
  next
    case False
    have t: "nodbl (d # cs)" using 3(4) nodbl_tl by blast
    have ih: "nodbl (sub_line_endings (d # cs))"
    proof (cases "c = 13")
      case True with False 3(2) t show ?thesis by simp
    next
      case F: False with False 3(3) t show ?thesis by simp
    qed
    have "sub_line_endings (c # d # cs) = (if c = 13 then 10 else c) # sub_line_endings (d # cs)"
      using False by simp
    then show ?thesis using sle_nodbl_Cons[OF 3(4) ih] by simp
  qed
qed

lemma run10_simps [simp]: "run10 [] = 0" "run10 (c # cs) = (if c = 10 then Suc (run10 cs) else 0)"
  by (simp_all add: run10_def)

lemma sbl_eq: "sub_blank_lines (c # cs) =
     (if c = 10 \<and> 2 \<le> run10 cs
      then 10 # 10 # sub_blank_lines (dropWhile (\<lambda>x. x = 10) cs)
      else c # sub_blank_lines cs)"
  by (auto simp: run10_def)

lemma sbl_A: "c = 10 \<and> 2 \<le> run10 cs \<Longrightarrow>
   sub_blank_lines (c # cs) = 10 # 10 # sub_blank_lines (dropWhile (\<lambda>x. x = 10) cs)"
  by (simp add: run10_def)

lemma sbl_B: "\<not> (c = 10 \<and> 2 \<le> run10 cs) \<Longrightarrow> sub_blank_lines (c # cs) = c # sub_blank_lines cs"
  by (auto simp: run10_def)

lemma sbl_cond: "(c = 10 \<and> 3 \<le> length (takeWhile (\<lambda>x. x = 10) (c # cs))) = (c = 10 \<and> 2 \<le> run10 cs)"
  by (auto simp: run10_def)

lemma sbl_hd: "(sub_blank_lines s = []) = (s = [])" "s \<noteq> [] \<Longrightarrow> hd (sub_blank_lines s) = hd s"
  by (cases s; simp)+

lemma run10_0: "run10 s = 0 \<longleftrightarrow> (s = [] \<or> hd s \<noteq> 10)"
  by (cases s) auto

lemma run10_dropWhile: "run10 (dropWhile (\<lambda>x. x = 10) s) = 0"
  using dropWhile_hd[of "\<lambda>x. x = 10" s] by (auto simp: run10_0)

lemma run10_sbl0: "run10 s = 0 \<Longrightarrow> run10 (sub_blank_lines s) = 0"
  using sbl_hd[of s] by (auto simp: run10_0)

lemma run10_sbl: "run10 (sub_blank_lines s) \<le> run10 s"
proof (induction s rule: sub_blank_lines.induct)
  case 1 show ?case by simp
next
  case (2 c cs)
  show ?case
  proof (cases "c = 10 \<and> 2 \<le> run10 cs")
    case True
    then have "sub_blank_lines (c # cs) = 10 # 10 # sub_blank_lines (dropWhile (\<lambda>x. x = 10) cs)"
      by (rule sbl_A)
    then have "run10 (sub_blank_lines (c # cs)) = 2"
      using run10_sbl0[OF run10_dropWhile[of cs]] by simp
    with True show ?thesis by simp
  next
    case False
    then have e: "sub_blank_lines (c # cs) = c # sub_blank_lines cs"
      by (rule sbl_B)
    have "\<not> (c = 10 \<and> 3 \<le> length (takeWhile (\<lambda>x. x = 10) (c # cs)))"
      using False sbl_cond[of c cs] by blast
    from 2(2)[OF this] show ?thesis unfolding e by simp
  qed
qed

lemma no3_Cons: "no3 (a # s) \<longleftrightarrow> (a \<noteq> 10 \<or> run10 s < 2) \<and> no3 s"
proof (cases s)
  case Nil then show ?thesis by simp
next
  case (Cons b t)
  then show ?thesis by (cases t) auto
qed

lemma no3_tl: "no3 (a # s) \<Longrightarrow> no3 s"
  by (simp add: no3_Cons)

lemma no3_suffix: "no3 (a @ b) \<Longrightarrow> no3 b"
  by (induction a) (auto dest: no3_tl)

lemma run10_append_le: "run10 a \<le> run10 (a @ b)"
  by (induction a) auto

lemma no3_prefix: "no3 (a @ b) \<Longrightarrow> no3 a"
proof (induction a)
  case Nil show ?case by simp
next
  case (Cons x a)
  have "run10 a \<le> run10 (a @ b)" by (rule run10_append_le)
  with Cons show ?case by (auto simp: no3_Cons)
qed

lemma sbl_no3: "no3 (sub_blank_lines s)"
proof (induction s rule: sub_blank_lines.induct)
  case 1 show ?case by simp
next
  case (2 c cs)
  show ?case
  proof (cases "c = 10 \<and> 2 \<le> run10 cs")
    case True
    let ?d = "dropWhile (\<lambda>x. x = 10) cs"
    have e: "sub_blank_lines (c # cs) = 10 # 10 # sub_blank_lines ?d"
      using True by (rule sbl_A)
    have c3: "c = 10 \<and> 3 \<le> length (takeWhile (\<lambda>x. x = 10) (c # cs))"
      using True sbl_cond[of c cs] by blast
    have ih: "no3 (sub_blank_lines ?d)" using 2(1)[OF c3] .
    have z: "run10 (sub_blank_lines ?d) = 0" using run10_sbl0[OF run10_dropWhile[of cs]] .
    show ?thesis unfolding e using ih z by (simp add: no3_Cons)
  next
    case False
    then have e: "sub_blank_lines (c # cs) = c # sub_blank_lines cs"
      by (rule sbl_B)
    have n3: "\<not> (c = 10 \<and> 3 \<le> length (takeWhile (\<lambda>x. x = 10) (c # cs)))"
      using False sbl_cond[of c cs] by blast
    have ih: "no3 (sub_blank_lines cs)" using 2(2)[OF n3] .
    have "c \<noteq> 10 \<or> run10 (sub_blank_lines cs) < 2"
      using False run10_sbl[of cs] by auto
    then show ?thesis unfolding e using ih by (simp add: no3_Cons)
  qed
qed

lemma sbl_fix: "no3 s \<Longrightarrow> sub_blank_lines s = s"
proof (induction s)
  case Nil show ?case by simp
next
  case (Cons c cs)
  then have "\<not> (c = 10 \<and> 2 \<le> run10 cs)" and "no3 cs" by (auto simp: no3_Cons)
  with Cons show ?case by (simp add: sbl_B del: sub_blank_lines.simps)
qed

lemma sbl_set: "set (sub_blank_lines s) \<subseteq> set s"
proof (induction s rule: sub_blank_lines.induct)
  case 1 show ?case by simp
next
  case (2 c cs)
  show ?case
  proof (cases "c = 10 \<and> 3 \<le> length (takeWhile (\<lambda>x. x = 10) (c # cs))")
    case True
    have "set (dropWhile (\<lambda>x. x = 10) cs) \<subseteq> set cs" by (rule set_dropWhileD[THEN subsetI])
    with 2(1)[OF True] True show ?thesis by auto
  next
    case False
    with 2(2)[OF False] show ?thesis by auto
  qed
qed

lemma sbl_nodbl: "nodbl s \<Longrightarrow> nodbl (sub_blank_lines s)"
proof (induction s rule: sub_blank_lines.induct)
  case 1 show ?case by simp
next
  case (2 c cs)
  show ?case
  proof (cases "c = 10 \<and> 3 \<le> length (takeWhile (\<lambda>x. x = 10) (c # cs))")
    case True
    let ?d = "dropWhile (\<lambda>x. x = 10) cs"
    have "cs = takeWhile (\<lambda>x. x = 10) cs @ ?d" by simp
    then have "nodbl ?d" using nodbl_suffix[of "takeWhile (\<lambda>x. x = 10) cs" ?d] nodbl_tl[OF 2(3)] by simp
    then have "nodbl (sub_blank_lines ?d)" using 2(1)[OF True] by simp
    moreover have "sub_blank_lines (c # cs) = 10 # 10 # sub_blank_lines ?d"
      using True sbl_cond[of c cs] sbl_A[of c cs] by blast
    ultimately show ?thesis by (simp add: nodbl_not32 del: sub_blank_lines.simps)
  next
    case False
    have ih: "nodbl (sub_blank_lines cs)" using 2(2)[OF False] nodbl_tl[OF 2(3)] by simp
    have e: "sub_blank_lines (c # cs) = c # sub_blank_lines cs"
      using False sbl_cond[of c cs] sbl_B[of c cs] by blast
    show ?thesis
    proof (cases "c = 32")
      case True
      then have "cs = [] \<or> hd cs \<noteq> 32" using 2(3) by (simp add: nodbl_32)
      then have "sub_blank_lines cs = [] \<or> hd (sub_blank_lines cs) \<noteq> 32"
        using sbl_hd[of cs] by auto
      then show ?thesis unfolding e using ih True by (simp add: nodbl_32)
    next
      case F: False
      then show ?thesis unfolding e using ih by (simp add: nodbl_not32)
    qed
  qed
qed


lemma rstrip_split: "s = rstrip s @ rev (takeWhile is_space (rev s))"
proof -
  have "rev (takeWhile is_space (rev s) @ dropWhile is_space (rev s)) = rev (rev s)"
    by (simp only: takeWhile_dropWhile_id)
  then have "rev (dropWhile is_space (rev s)) @ rev (takeWhile is_space (rev s)) = s"
    by (simp only: rev_append rev_rev_ident)
  then show ?thesis by (simp only: rstrip_def)
qed

lemma lstrip_split: "s = takeWhile is_space s @ lstrip s"
  by (simp add: lstrip_def)

lemma strip_infix: "\<exists>a b. s = a @ strip s @ b"
proof -
  have "s = takeWhile is_space s @ strip s @ rev (takeWhile is_space (rev (lstrip s)))"
    using lstrip_split[of s] rstrip_split[of "lstrip s"] by (simp add: strip_def)
  then show ?thesis by blast
qed

lemma lstrip_fix: "u = [] \<or> \<not> is_space (hd u) \<Longrightarrow> lstrip u = u"
  by (cases u) (auto simp: lstrip_def)

lemma rstrip_fix: "u = [] \<or> \<not> is_space (last u) \<Longrightarrow> rstrip u = u"
proof (cases "u = []")
  case True then show ?thesis by (simp add: rstrip_def)
next
  case False
  assume "u = [] \<or> \<not> is_space (last u)"
  with False have "\<not> is_space (hd (rev u))" by (simp add: hd_rev)
  moreover have "rev u \<noteq> []" using False by simp
  ultimately have "dropWhile is_space (rev u) = rev u" by (cases "rev u") auto
  then show ?thesis by (simp add: rstrip_def)
qed

lemma lstrip_hd: "lstrip s = [] \<or> \<not> is_space (hd (lstrip s))"
  unfolding lstrip_def by (rule dropWhile_hd)

lemma rstrip_last: "rstrip s = [] \<or> \<not> is_space (last (rstrip s))"
proof -
  let ?d = "dropWhile is_space (rev s)"
  have "?d = [] \<or> \<not> is_space (hd ?d)" by (rule dropWhile_hd)
  then show ?thesis by (auto simp: rstrip_def last_rev)
qed

lemma rstrip_hd: "rstrip s \<noteq> [] \<Longrightarrow> hd (rstrip s) = hd s"
  using rstrip_split[of s] by (metis hd_append2)

lemma strip_strip: "strip (strip s) = strip s"
proof -
  let ?t = "lstrip s"
  let ?u = "rstrip ?t"
  have "?u = [] \<or> \<not> is_space (hd ?u)"
    using lstrip_hd[of s] rstrip_hd[of ?t] by (cases "?u = []") (auto simp: rstrip_def)
  then have "lstrip ?u = ?u" by (rule lstrip_fix)
  moreover have "rstrip ?u = ?u" using rstrip_last[of ?t] by (rule rstrip_fix)
  ultimately show ?thesis by (simp add: strip_def)
qed

lemma normalized_fix:
  assumes "nodbl y" "13 \<notin> set y" "no3 y" "strip y = y"
  shows "strip (sub_blank_lines (sub_line_endings (sub_spaces y))) = y"
  using assms by (simp add: sub_spaces_fix sle_fix sbl_fix)

lemma normalize_body_props:
  fixes s :: pystr
  defines "y \<equiv> strip (sub_blank_lines (sub_line_endings (sub_spaces s)))"
  shows "nodbl y" "13 \<notin> set y" "no3 y" "strip y = y"
proof -
  let ?z = "sub_blank_lines (sub_line_endings (sub_spaces s))"
  obtain a b where ab: "?z = a @ y @ b" unfolding y_def using strip_infix[of ?z] by blast
  have "nodbl ?z" by (intro sbl_nodbl sle_nodbl nodbl_sub_spaces)
  then show "nodbl y" using ab nodbl_suffix[of a "y @ b"] nodbl_prefix[of y b] by simp
  have "13 \<notin> set ?z" using sbl_set[of "sub_line_endings (sub_spaces s)"] sle_no13[of "sub_spaces s"] by blast
  then show "13 \<notin> set y" using ab by (metis UnCI set_append)
  have "no3 ?z" by (rule sbl_no3)
  then show "no3 y" using ab no3_suffix[of a "y @ b"] no3_prefix[of y b] by simp
  show "strip y = y" unfolding y_def by (rule strip_strip)
qed

text \<open>
  C7: TXT text normalisation is idempotent: normalising the result of a normalisation
  returns it unchanged, for every decoded string.
\<close>

theorem normalize_text_idempotent:
  "normalize_text (Some (normalize_text (Some x))) = normalize_text (Some x)"
proof (cases "x = []")
  case True then show ?thesis by (simp add: normalize_text_def)
next
  case False
  define y where "y = strip (sub_blank_lines (sub_line_endings (sub_spaces x)))"
  have n: "normalize_text (Some x) = y" using False by (simp add: normalize_text_def y_def)
  have "strip (sub_blank_lines (sub_line_endings (sub_spaces y))) = y"
    unfolding y_def by (intro normalized_fix normalize_body_props)
  then have "normalize_text (Some y) = y" by (simp add: normalize_text_def)
  with n show ?thesis by simp
qed

subsection \<open>Binary content\<close>

lemma sentinel_binary_chars: "binary_chars (blit ''This is not a valid document'') = 0"
  by (simp add: binary_chars_def is_binary_char_def blit_def)

lemma is_binary_char_iff: "is_binary_char b \<longleftrightarrow> b < 32 \<and> b \<notin> {9, 10, 11, 12, 13, 27}"
  unfolding is_binary_char_def by (auto simp: word_less_nat_alt word_unat_eq_iff)

lemma txt_parse_too_many_binary_chars:
  assumes "10 \<le> length content" "too_many_binary_chars content"
  shows "fst (txt_parse rt xs self content) =
     Inl (Exn TXTParsingError (lit ''Failed to parse TXT document: Invalid text content: contains too many binary characters''))"
proof -
  have ne: "content \<noteq> blit ''This is not a valid document''"
    using assms(2) sentinel_binary_chars by (auto simp: too_many_binary_chars_def)
  have ne2: "content \<noteq> []" using assms(1) by auto
  have d: "fst (detect_and_decode_content rt (self\<lparr>txt_content := Some content\<rparr>)) =
     Inl (Exn TXTParsingError (lit ''Invalid text content: contains too many binary characters''))"
    using assms ne2 by (simp add: detect_and_decode_content_def)
  show ?thesis
    using ne d
    by (simp add: txt_parse_def txt_parse_body_def Let_def caught_by_def issubclass_def lit_def)
qed

text \<open>
  C8 (as stated): a byte is a binary control character exactly when it lies in 0-31 and is
  none of 9, 10, 13, 27, and an input of at least 10 bytes with more than 5% of them is
  rejected as binary content. The bytes 11 (VT) and 12 (FF) lie in 0-31 and are none of
  the four, but the scan skips the whole range 9-13: a 12-byte input with two VT bytes
  (16%) is not counted as binary and, with UTF-8 detected, is parsed.
\<close>

theorem binary_char_vt_counterexample:
  "(11 :: 8 word) < 32 \<and> (11 :: 8 word) \<notin> {9, 10, 13, 27} \<and> \<not> is_binary_char 11
   \<and> length (blit ''ab'' @ [11, 11] @ blit ''cdefghij'') = 12
   \<and> \<not> too_many_binary_chars (blit ''ab'' @ [11, 11] @ blit ''cdefghij'')
   \<and> map_sum id res_content
        (fst (txt_parse utf8_runtime (\<lambda>d. ()) new_txt_parser
                (blit ''ab'' @ [11, 11] @ blit ''cdefghij'')))
       = Inr (lit ''ab'' @ [11, 11] @ lit ''cdefghij'')"
  by (simp add: txt_parse_def txt_parse_body_def detect_and_decode_content_def
      too_many_binary_chars_def binary_chars_def is_binary_char_def confidence_threshold_def
      caught_by_def issubclass_def Let_def
      txt_validate_def normalize_text_def new_txt_parser_def utf8_runtime_def blit_def lit_def
      ascii_lower_def strip_def lstrip_def rstrip_def is_space_def is_cont_def cont_bits_def)

text \<open>
  C8 (amended): a byte counts as a binary control character exactly when its value lies in
  0-31 and is none of 9, 10, 11, 12, 13 and 27; and for every input of at least 10 bytes
  of which more than 5% are such bytes, on every parser instance and with every runtime,
  \<open>parse\<close> raises a \<open>TXTParsingError\<close> whose message names the binary characters.
\<close>

theorem binary_content_rejected:
  "(is_binary_char b \<longleftrightarrow> b < 32 \<and> b \<notin> {9, 10, 11, 12, 13, 27})
   \<and> (10 \<le> length content \<and> 20 * binary_chars content > length content \<longrightarrow>
        fst (txt_parse rt xs self content) =
        Inl (Exn TXTParsingError (lit ''Failed to parse TXT document: Invalid text content: contains too many binary characters'')))"
  using is_binary_char_iff [of b] txt_parse_too_many_binary_chars [of content rt xs self]
  by (simp add: too_many_binary_chars_def)

theorem binary_content_rejected_witness:
  "is_binary_char 0 \<and> \<not> is_binary_char 12
   \<and> 10 \<le> length (blit ''abcdefghi'' @ [0 :: 8 word])
   \<and> 20 * binary_chars (blit ''abcdefghi'' @ [0]) > length (blit ''abcdefghi'' @ [0 :: 8 word])
   \<and> fst (txt_parse utf8_runtime (\<lambda>d. ()) new_txt_parser (blit ''abcdefghi'' @ [0])) =
       Inl (Exn TXTParsingError (lit ''Failed to parse TXT document: Invalid text content: contains too many binary characters''))"
  using binary_content_rejected [of 0 "blit ''abcdefghi'' @ [0]" utf8_runtime "\<lambda>d. ()" new_txt_parser]
        binary_content_rejected [of 12 "[]" utf8_runtime "\<lambda>d. ()" new_txt_parser]
  by (simp add: binary_chars_def is_binary_char_def blit_def)

subsection \<open>The byte 0x80\<close>

text \<open>
  C6: an input that holds the byte 0x80 and is detected as UTF-8 or ASCII must make
  \<open>parse\<close> raise an encoding error. The UTF-8 text "A Paris, A Lyon, A Nice" in which
  each A is the capital A with grave accent (bytes C3 80), detected as utf-8 with confidence 0.87625: the
  decoding step raises \<open>TXTEncodingError\<close>, but it does so inside the \<open>try\<close> block of
  \<open>parse\<close>, whose handler \<open>except Exception\<close> replaces it by a \<open>TXTParsingError\<close>, which
  is not an \<open>EncodingError\<close>.
\<close>

theorem txt_parse_0x80_raises_parsing_error:
  "0x80 \<in> set ([0xC3, 0x80] @ blit '' Paris, '' @ [0xC3, 0x80] @ blit '' Lyon, ''
                  @ [0xC3, 0x80 :: 8 word] @ blit '' Nice'')
   \<and> fst (detect_and_decode_content utf8_runtime
        (new_txt_parser\<lparr>txt_content :=
           Some ([0xC3, 0x80] @ blit '' Paris, '' @ [0xC3, 0x80] @ blit '' Lyon, ''
                 @ [0xC3, 0x80] @ blit '' Nice'')\<rparr>))
       = Inl (Exn TXTEncodingError (lit ''Invalid utf-8 sequence detected''))
   \<and> fst (txt_parse utf8_runtime (\<lambda>d. ()) new_txt_parser
        ([0xC3, 0x80] @ blit '' Paris, '' @ [0xC3, 0x80] @ blit '' Lyon, ''
         @ [0xC3, 0x80] @ blit '' Nice''))
       = Inl (Exn TXTParsingError
               (lit ''Failed to parse TXT document: Invalid utf-8 sequence detected''))
   \<and> \<not> issubclass TXTParsingError EncodingError"
  by (simp add: txt_parse_def txt_parse_body_def detect_and_decode_content_def
      too_many_binary_chars_def binary_chars_def is_binary_char_def confidence_threshold_def
      caught_by_def issubclass_def Let_def
      new_txt_parser_def utf8_runtime_def blit_def lit_def ascii_lower_def)


section \<open>Properties of the PDF parser\<close>

lemma pad_digits_numeral:
  "pad_digits (numeral k) n = pad_digits (pred_numeral k) (n div 10) @ [48 + n mod 10]"
  by (metis numeral_eq_Suc pad_digits.simps(2))

text \<open>
  \<open>int()\<close> on the slices of the two dates below: "2024", "03", "28", "12", "34", "56"
  and "5x".
\<close>

lemma py_int_2024: "py_int [50, 48, 50, 52] = Some 2024"
proof -
  have a: "int_strip [50, 48, 50, 52] = [50, 48, 50, 52]"
    by (simp add: int_strip_def is_int_space_def)
  have b: "filter is_decimal [50, 48, 50, 52] = [50, 48, 50, 52]"
    by (simp add: is_decimal_def decimal_value_def decimal_zeros_def)
  have c: "digits_value 0 [50, 48, 50, 52] = Some 2024"
    by (simp add: decimal_value_def decimal_zeros_def)
  show ?thesis
    by (simp add: py_int_def Let_def a b c del: digits_value.simps)
qed

lemma py_int_03: "py_int [48, 51] = Some 3"
proof -
  have a: "int_strip [48, 51] = [48, 51]"
    by (simp add: int_strip_def is_int_space_def)
  have b: "filter is_decimal [48, 51] = [48, 51]"
    by (simp add: is_decimal_def decimal_value_def decimal_zeros_def)
  have c: "digits_value 0 [48, 51] = Some 3"
    by (simp add: decimal_value_def decimal_zeros_def)
  show ?thesis
    by (simp add: py_int_def Let_def a b c del: digits_value.simps)
qed

lemma py_int_28: "py_int [50, 56] = Some 28"
proof -
  have a: "int_strip [50, 56] = [50, 56]"
    by (simp add: int_strip_def is_int_space_def)
  have b: "filter is_decimal [50, 56] = [50, 56]"
    by (simp add: is_decimal_def decimal_value_def decimal_zeros_def)
  have c: "digits_value 0 [50, 56] = Some 28"
    by (simp add: decimal_value_def decimal_zeros_def)
  show ?thesis
    by (simp add: py_int_def Let_def a b c del: digits_value.simps)
qed

lemma py_int_12: "py_int [49, 50] = Some 12"
proof -
  have a: "int_strip [49, 50] = [49, 50]"
    by (simp add: int_strip_def is_int_space_def)
  have b: "filter is_decimal [49, 50] = [49, 50]"
    by (simp add: is_decimal_def decimal_value_def decimal_zeros_def)
  have c: "digits_value 0 [49, 50] = Some 12"
    by (simp add: decimal_value_def decimal_zeros_def)
  show ?thesis
    by (simp add: py_int_def Let_def a b c del: digits_value.simps)
qed

lemma py_int_34: "py_int [51, 52] = Some 34"
proof -
  have a: "int_strip [51, 52] = [51, 52]"
    by (simp add: int_strip_def is_int_space_def)
  have b: "filter is_decimal [51, 52] = [51, 52]"
    by (simp add: is_decimal_def decimal_value_def decimal_zeros_def)
  have c: "digits_value 0 [51, 52] = Some 34"
    by (simp add: decimal_value_def decimal_zeros_def)
  show ?thesis
    by (simp add: py_int_def Let_def a b c del: digits_value.simps)
qed

lemma py_int_56: "py_int [53, 54] = Some 56"
proof -
  have a: "int_strip [53, 54] = [53, 54]"
    by (simp add: int_strip_def is_int_space_def)
  have b: "filter is_decimal [53, 54] = [53, 54]"
    by (simp add: is_decimal_def decimal_value_def decimal_zeros_def)
  have c: "digits_value 0 [53, 54] = Some 56"
    by (simp add: decimal_value_def decimal_zeros_def)
  show ?thesis
    by (simp add: py_int_def Let_def a b c del: digits_value.simps)
qed

lemma py_int_5x: "py_int [53, 120] = None"
proof -
  have a: "int_strip [53, 120] = [53, 120]"
    by (simp add: int_strip_def is_int_space_def)
  have b: "filter is_decimal [53, 120] = [53]"
    by (simp add: is_decimal_def decimal_value_def decimal_zeros_def)
  have c: "digits_value 0 [53, 120] = None"
    by (simp add: decimal_value_def decimal_zeros_def)
  show ?thesis
    by (simp add: py_int_def Let_def a b c del: digits_value.simps)
qed

text \<open>
  C5: a malformed PDF date string must give the empty string. For "invalid" (and for the
  empty string) the date formatter returns Python's \<open>None\<close>, whatever \<open>int()\<close> does: the
  string is shorter than 14 characters, the \<open>if\<close> has no \<open>else\<close>, and the function
  falls off its end. Only a malformed string of at least 14 characters reaches the
  \<open>except\<close> branch and gives the empty string; a well-formed one gives the ISO date.
\<close>

theorem parse_pdf_date_invalid_returns_none:
  "parse_pdf_date str_int (lit ''invalid'') = None
   \<and> parse_pdf_date str_int [] = None
   \<and> parse_pdf_date py_int (lit ''D:2024032812345x'') = Some []
   \<and> parse_pdf_date py_int (lit ''D:20240328123456'') = Some (lit ''2024-03-28T12:34:56'')"
  by (simp add: parse_pdf_date_def lit_def slice_def py_int_2024 py_int_03 py_int_28 py_int_12
      py_int_34 py_int_56 py_int_5x
      valid_datetime_def days_in_month_def is_leap_def isoformat_def pad_digits_numeral)

text \<open>
  C3: an encrypted PDF must make \<open>parse\<close> raise \<open>PDFEncryptedError\<close>. For every reader
  that reports itself encrypted, on every parser instance and for every input, \<open>parse\<close>
  raises \<open>PDFParsingError\<close> instead: the \<open>PDFEncryptedError\<close> is raised inside the
  \<open>try\<close> block, matches neither of the first two handlers, and is replaced by the
  handler \<open>except Exception\<close>.
\<close>

theorem pdf_parse_encrypted_raises_parsing_error:
  "fst (pdf_parse_body (\<lambda>c. Inr (reader\<lparr>reader_is_encrypted := True\<rparr>)) str_int self content)
     = Inl (Exn PDFEncryptedError (lit ''Cannot parse encrypted PDF''))
   \<and> fst (pdf_parse (\<lambda>c. Inr (reader\<lparr>reader_is_encrypted := True\<rparr>)) str_int self content)
     = Inl (Exn PDFParsingError (lit ''PDF parsing failed: Cannot parse encrypted PDF''))
   \<and> \<not> issubclass PDFParsingError PDFEncryptedError"
  by (simp add: pdf_parse_def pdf_parse_body_def Let_def caught_by_def issubclass_def lit_def)


section \<open>Properties of the simple parsers\<close>

lemma strip_sample_text:
  "strip sample_text =
     lit ''John Smith'' @ sample_middle @ lit ''English (Native), Spanish (Intermediate)''"
  by (simp add: sample_text_def strip_def lstrip_def rstrip_def lit_def is_space_def)

lemma caught_by_Exception: "caught_by e Exception"
  by (cases e; rename_tac c m; case_tac c) (simp_all add: caught_by_def issubclass_def)

lemma pdf_parse_document_or_typed_error:
  "document_or_typed_error (pdf_parse_outcome open_pdf str_int self content)"
proof (cases "fst (pdf_parse_body open_pdf str_int self content)")
  case (Inr r)
  then show ?thesis by (simp add: pdf_parse_outcome_def pdf_parse_def Let_def)
next
  case (Inl e)
  then show ?thesis
    using caught_by_Exception[of e]
    by (simp add: pdf_parse_outcome_def pdf_parse_def Let_def caught_by_def issubclass_def)
qed

text \<open>
  C10: when the PDF opens, every page gives its text and the concatenated text has fewer
  than 100 characters after stripping (a readable PDF without pages or without text
  included), \<open>parse\<close> of the factory's \<open>PdfParser\<close> returns the stripped sample text,
  which begins "John Smith" and then "Software Engineer" on the next line. The result is
  the same for all such inputs: it does not depend on the bytes or on the extracted text.
\<close>

theorem simple_pdf_parse_short_text_gives_sample:
  assumes "open_pdf content = Inr reader"
    and "reader_pages reader = Inr pages"
    and "concat_page_texts pages = Inr pdf_text"
    and "length (strip pdf_text) < 100"
  shows "factory_parse open_pdf open_docx PdfParser content =
     ReturnsString (lit ''John Smith'' @ sample_middle
                    @ lit ''English (Native), Spanish (Intermediate)'')"
  using assms by (simp add: simple_pdf_parse_def strip_sample_text)

theorem simple_pdf_parse_short_text_gives_sample_witness:
  "(\<lambda>c. Inr (one_page_reader (lit ''Sample PDF content''))) (blit ''%PDF-1.4'')
     = (Inr (one_page_reader (lit ''Sample PDF content'')) :: exn + pdf_reader)
   \<and> reader_pages (one_page_reader (lit ''Sample PDF content''))
     = Inr [\<lparr>page_extract_text = Inr (lit ''Sample PDF content''),
             page_mediabox = Inr (612, 792), page_rotate = None\<rparr>]
   \<and> concat_page_texts [\<lparr>page_extract_text = Inr (lit ''Sample PDF content''),
                           page_mediabox = Inr (612, 792), page_rotate = None\<rparr>]
     = Inr (lit ''Sample PDF content'' @ lit ''\<newline>'')
   \<and> length (strip (lit ''Sample PDF content'' @ lit ''\<newline>'')) < 100
   \<and> factory_parse (\<lambda>c. Inr (one_page_reader (lit ''Sample PDF content'')))
        (\<lambda>c. Inl (Exn PackageNotFoundError [])) PdfParser (blit ''%PDF-1.4'')
     = (ReturnsString (lit ''John Smith'' @ sample_middle
                      @ lit ''English (Native), Spanish (Intermediate)'') :: unit outcome)"
proof -
  have h1: "(\<lambda>c. Inr (one_page_reader (lit ''Sample PDF content''))) (blit ''%PDF-1.4'')
     = (Inr (one_page_reader (lit ''Sample PDF content'')) :: exn + pdf_reader)" by simp
  have h2: "reader_pages (one_page_reader (lit ''Sample PDF content''))
     = Inr [\<lparr>page_extract_text = Inr (lit ''Sample PDF content''),
             page_mediabox = Inr (612, 792), page_rotate = None\<rparr>]"
    by (simp add: one_page_reader_def)
  have h3: "concat_page_texts [\<lparr>page_extract_text = Inr (lit ''Sample PDF content''),
                           page_mediabox = Inr (612, 792), page_rotate = None\<rparr>]
     = Inr (lit ''Sample PDF content'' @ lit ''\<newline>'')" by simp
  have h4: "length (strip (lit ''Sample PDF content'' @ lit ''\<newline>'')) < 100"
    by (simp add: strip_def lstrip_def rstrip_def lit_def is_space_def)
  from simple_pdf_parse_short_text_gives_sample [OF h1 h2 h3 h4] h1 h2 h3 h4
  show ?thesis by blast
qed

text \<open>
  C1: every parser obtained from the factory must return a full document or raise a typed
  parsing error, never a bare or empty string. The factory returns the parsers of
  document_parser.py, whose \<open>parse\<close> returns a string for every input: for the token
  "txt" the input "This is not a valid document" comes back as that bare string, and the
  one-byte input 0x80, which is not UTF-8, gives the empty string. No input makes a
  factory parser return a document or raise. \<open>PDFParser.parse\<close> of pdf_parser.py does
  keep the contract, on every instance and input.
\<close>

theorem factory_parse_returns_bare_string:
  "create_parser ascii_lower (lit ''txt'') = Inr TxtParser
   \<and> factory_parse open_pdf open_docx TxtParser (blit ''This is not a valid document'')
       = (ReturnsString (lit ''This is not a valid document'') :: 'd outcome)
   \<and> factory_parse open_pdf open_docx TxtParser [0x80] = (ReturnsString [] :: 'd outcome)
   \<and> \<not> document_or_typed_error (factory_parse open_pdf open_docx parser content :: 'd outcome)
   \<and> document_or_typed_error (pdf_parse_outcome open_pdf str_int self content)"
proof -
  have a: "create_parser ascii_lower (lit ''txt'') = Inr TxtParser"
    by (simp add: create_parser_def ascii_lower_def lit_def)
  have b: "factory_parse open_pdf open_docx TxtParser (blit ''This is not a valid document'')
       = (ReturnsString (lit ''This is not a valid document'') :: 'd outcome)"
    by (simp add: lit_def blit_def simple_txt_parse_def strip_def lstrip_def rstrip_def
        is_space_def)
  have c: "factory_parse open_pdf open_docx TxtParser [0x80] = (ReturnsString [] :: 'd outcome)"
    by (simp add: simple_txt_parse_def)
  have d: "\<not> document_or_typed_error
               (factory_parse open_pdf open_docx parser content :: 'd outcome)"
    by (cases parser) simp_all
  show ?thesis
    using a b c d pdf_parse_document_or_typed_error [of open_pdf str_int self content]
    by blast
qed

section \<open>Metadata extraction\<close>

text \<open>
  C2 (as stated): \<open>extract_metadata\<close> returns a map and never raises, in every state of
  every parser. On a PDF or DOCX parser that has not loaded a document it raises the
  parsing error of the format.
\<close>

theorem extract_metadata_unloaded_counterexample:
  "pdf_extract_metadata py_int new_pdf_parser
     = Inl (Exn PDFParsingError (lit ''No PDF loaded for metadata extraction''))
   \<and> docx_extract_metadata new_docx_parser
     = Inl (Exn DOCXParsingError (lit ''No document loaded for metadata extraction''))"
  by (simp add: pdf_extract_metadata_def docx_extract_metadata_def new_pdf_parser_def
      new_docx_parser_def)

text \<open>
  C2 (amended): on a PDF or DOCX parser that has loaded a document, \<open>extract_metadata\<close>
  returns a map and never raises: the empty map when reading the information dictionary,
  the page list or the core properties fails or the PDF has no information dictionary,
  and otherwise a map that holds the page count (PDF) or the paragraph, table and section
  counts (DOCX). With no document loaded it raises \<open>PDFParsingError\<close> or
  \<open>DOCXParsingError\<close>. On a TXT parser it returns the empty map before anything has
  been decoded, and afterwards a map that holds the character count and the encoding.
\<close>

theorem extract_metadata_contained_once_loaded:
  "(case pdf_reader_field pself of
      None \<Rightarrow> pdf_extract_metadata str_int pself
               = Inl (Exn PDFParsingError (lit ''No PDF loaded for metadata extraction''))
    | Some reader \<Rightarrow>
        (case reader_metadata reader of
           Inl e \<Rightarrow> pdf_extract_metadata str_int pself = Inr Map.empty
         | Inr None \<Rightarrow> pdf_extract_metadata str_int pself = Inr Map.empty
         | Inr (Some info) \<Rightarrow>
             (case reader_pages reader of
                Inl e \<Rightarrow> pdf_extract_metadata str_int pself = Inr Map.empty
              | Inr pages \<Rightarrow>
                  (\<exists>m. pdf_extract_metadata str_int pself = Inr m
                       \<and> m ''page_count'' = Some (PInt (int (length pages)))))))
   \<and> (case docx_doc dself of
      None \<Rightarrow> docx_extract_metadata dself
               = Inl (Exn DOCXParsingError (lit ''No document loaded for metadata extraction''))
    | Some doc \<Rightarrow>
        (case doc_core_properties doc of
           Inl e \<Rightarrow> docx_extract_metadata dself = Inr Map.empty
         | Inr props \<Rightarrow>
             (\<exists>m. docx_extract_metadata dself = Inr m
                  \<and> m ''paragraph_count'' = Some (PInt (int (length (doc_paragraphs doc))))
                  \<and> m ''table_count'' = Some (PInt (int (length (doc_tables doc))))
                  \<and> m ''section_count'' = Some (PInt (int (length (doc_sections doc)))))))
   \<and> (case txt_decoded_content tself of
      None \<Rightarrow> txt_extract_metadata rt tself = Map.empty
    | Some text \<Rightarrow>
        txt_extract_metadata rt tself ''char_count'' = Some (PInt (int (length text)))
        \<and> txt_extract_metadata rt tself ''encoding'' = Some (PStr (txt_encoding tself)))"
proof -
  have p: "(case pdf_reader_field pself of
      None \<Rightarrow> pdf_extract_metadata str_int pself
               = Inl (Exn PDFParsingError (lit ''No PDF loaded for metadata extraction''))
    | Some reader \<Rightarrow>
        (case reader_metadata reader of
           Inl e \<Rightarrow> pdf_extract_metadata str_int pself = Inr Map.empty
         | Inr None \<Rightarrow> pdf_extract_metadata str_int pself = Inr Map.empty
         | Inr (Some info) \<Rightarrow>
             (case reader_pages reader of
                Inl e \<Rightarrow> pdf_extract_metadata str_int pself = Inr Map.empty
              | Inr pages \<Rightarrow>
                  (\<exists>m. pdf_extract_metadata str_int pself = Inr m
                       \<and> m ''page_count'' = Some (PInt (int (length pages)))))))"
    by (simp add: pdf_extract_metadata_def Let_def split: option.splits sum.splits)
  have d: "(case docx_doc dself of
      None \<Rightarrow> docx_extract_metadata dself
               = Inl (Exn DOCXParsingError (lit ''No document loaded for metadata extraction''))
    | Some doc \<Rightarrow>
        (case doc_core_properties doc of
           Inl e \<Rightarrow> docx_extract_metadata dself = Inr Map.empty
         | Inr props \<Rightarrow>
             (\<exists>m. docx_extract_metadata dself = Inr m
                  \<and> m ''paragraph_count'' = Some (PInt (int (length (doc_paragraphs doc))))
                  \<and> m ''table_count'' = Some (PInt (int (length (doc_tables doc))))
                  \<and> m ''section_count'' = Some (PInt (int (length (doc_sections doc)))))))"
    by (simp add: docx_extract_metadata_def split: option.splits sum.splits)
  have t: "(case txt_decoded_content tself of
      None \<Rightarrow> txt_extract_metadata rt tself = Map.empty
    | Some text \<Rightarrow>
        txt_extract_metadata rt tself ''char_count'' = Some (PInt (int (length text)))
        \<and> txt_extract_metadata rt tself ''encoding'' = Some (PStr (txt_encoding tself)))"
    by (simp add: txt_extract_metadata_def Let_def split: option.splits sum.splits)
  from p d t show ?thesis by (rule conjI [OF _ conjI])
qed

theorem extract_metadata_contained_once_loaded_witness:
  "pdf_extract_metadata py_int
        (new_pdf_parser\<lparr>pdf_reader_field :=
           Some ((one_page_reader (lit ''text''))\<lparr>reader_metadata := Inl (Exn PdfReadError [])\<rparr>)\<rparr>)
       = Inr Map.empty
   \<and> docx_extract_metadata
        (new_docx_parser\<lparr>docx_doc :=
           Some ((one_paragraph_document (lit ''text'') [])
                   \<lparr>doc_core_properties := Inl (Exn OtherError [])\<rparr>)\<rparr>)
       = Inr Map.empty
   \<and> txt_extract_metadata utf8_runtime new_txt_parser = Map.empty"
  using extract_metadata_contained_once_loaded
    [where pself = "new_pdf_parser\<lparr>pdf_reader_field :=
           Some ((one_page_reader (lit ''text''))\<lparr>reader_metadata := Inl (Exn PdfReadError [])\<rparr>)\<rparr>"
       and str_int = py_int
       and dself = "new_docx_parser\<lparr>docx_doc :=
           Some ((one_paragraph_document (lit ''text'') [])
                   \<lparr>doc_core_properties := Inl (Exn OtherError [])\<rparr>)\<rparr>"
       and tself = new_txt_parser and rt = utf8_runtime]
  by (simp add: new_txt_parser_def)

section \<open>Properties of the DOCX parser\<close>

lemma join_member: "l \<in> set ls \<Longrightarrow> \<exists>pre post. join sep ls = pre @ l @ post"
proof (induction sep ls rule: join.induct)
  case (1 sep) then show ?case by simp
next
  case (2 sep x)
  then have "join sep [x] = [] @ l @ []" by simp
  then show ?case by blast
next
  case (3 sep x y ys)
  show ?case
  proof (cases "l = x")
    case True
    then have "join sep (x # y # ys) = [] @ l @ (sep @ join sep (y # ys))" by simp
    then show ?thesis by blast
  next
    case False
    with 3 obtain pre post where "join sep (y # ys) = pre @ l @ post" by auto
    then have "join sep (x # y # ys) = (x @ sep @ pre) @ l @ post" by simp
    then show ?thesis by blast
  qed
qed

lemma header_rows:
  "concat (map row_lines [[lit ''Header 1'', lit ''Header 2''], [lit ''Data 1'', lit ''Data 2'']])
     = [lit ''Header 1 | Header 2'', lit ''Data 1 | Data 2'']"
  by (simp add: row_lines_def row_text_def strip_def lstrip_def rstrip_def lit_def is_space_def)

lemma table_lines_member:
  assumes "table \<in> set (doc_tables doc)"
  shows "\<exists>before after. table_lines doc
           = before @ concat (map row_lines (table_rows table)) @ after"
proof -
  from assms obtain ts1 ts2 where "doc_tables doc = ts1 @ table # ts2"
    by (meson split_list)
  then have "table_lines doc =
      concat (map (\<lambda>t. concat (map row_lines (table_rows t))) ts1)
      @ concat (map row_lines (table_rows table))
      @ concat (map (\<lambda>t. concat (map row_lines (table_rows t))) ts2)"
    by (simp add: table_lines_def)
  then show ?thesis by blast
qed

lemma docx_structure_ok: "docx_doc self = Some doc \<Longrightarrow> \<exists>s. docx_extract_structure str_int self = Inr s"
  by (simp add: docx_extract_structure_def split: option.splits)

lemma docx_metadata_ok: "docx_doc self = Some doc \<Longrightarrow> \<exists>m. docx_extract_metadata self = Inr m"
  by (simp add: docx_extract_metadata_def split: sum.splits)

lemma docx_parse_ok:
  assumes "open_docx content = Inr doc"
  shows "\<exists>result. fst (docx_parse open_docx str_int lower self content) = Inr result
     \<and> docx_res_content result = join (lit ''\<newline>'') (paragraph_lines doc @ table_lines doc)"
proof -
  let ?self = "self\<lparr>docx_content := Some content, docx_doc := Some doc\<rparr>"
  have d: "docx_doc ?self = Some doc" by simp
  obtain s where s: "docx_extract_structure str_int ?self = Inr s"
    using docx_structure_ok[OF d] by blast
  obtain m where m: "docx_extract_metadata ?self = Inr m"
    using docx_metadata_ok[OF d] by blast
  have t: "docx_extract_text ?self = Inr (join (lit ''\<newline>'') (paragraph_lines doc @ table_lines doc))"
    by (simp add: docx_extract_text_def)
  have "fst (docx_parse_body open_docx str_int self content) =
     Inr \<lparr>docx_res_content = join (lit ''\<newline>'') (paragraph_lines doc @ table_lines doc),
          docx_res_structure = s, docx_res_metadata = m\<rparr>"
    using assms s m t by (simp add: docx_parse_body_def Let_def)
  then show ?thesis by (simp add: docx_parse_def Let_def)
qed


lemma row_lines_iff:
  "row_lines cells =
     (if \<forall>cell \<in> set cells. strip cell = [] then []
      else [join (lit '' | '') (map strip (filter (\<lambda>cell. strip cell \<noteq> []) cells))])"
  by (auto simp: row_lines_def row_text_def filter_empty_conv)

text \<open>
  C9 (as stated): in a document that contains the table of the claim, the non-empty cell
  texts of every row are joined by " | ". A second table in such a document has the row
  " ", " Total ": both cell texts are non-empty, so the rule of the claim gives the line
  "  |  Total ", but the code strips each cell text and drops the cell that is blank,
  and the line is "Total".
\<close>

theorem docx_row_whitespace_counterexample:
  "header_data_table
     \<in> set (doc_tables (one_paragraph_document (lit ''Sample'') [header_data_table, padded_table]))
   \<and> spec_row_lines [lit '' '', lit '' Total ''] = [lit ''  |  Total '']
   \<and> row_lines [lit '' '', lit '' Total ''] = [lit ''Total'']
   \<and> map_sum id docx_res_content
        (fst (docx_parse
                (\<lambda>c. Inr (one_paragraph_document (lit ''Sample'')
                              [header_data_table, padded_table]))
                py_int ascii_lower new_docx_parser (blit ''PK'')))
       = Inr (lit ''Sample\<newline>Header 1 | Header 2\<newline>Data 1 | Data 2\<newline>Total'')"
proof -
  let ?doc = "one_paragraph_document (lit ''Sample'') [header_data_table, padded_table]"
  have m: "header_data_table \<in> set (doc_tables ?doc)"
    by (simp add: one_paragraph_document_def)
  have s: "spec_row_lines [lit '' '', lit '' Total ''] = [lit ''  |  Total '']"
    by (simp add: spec_row_lines_def lit_def)
  have r: "row_lines [lit '' '', lit '' Total ''] = [lit ''Total'']"
    by (simp add: row_lines_def row_text_def strip_def lstrip_def rstrip_def lit_def is_space_def)
  have o: "(\<lambda>c. Inr ?doc) (blit ''PK'') = (Inr ?doc :: exn + docx_document)" by simp
  obtain result where
    p: "fst (docx_parse (\<lambda>c. Inr ?doc) py_int ascii_lower new_docx_parser (blit ''PK''))
          = Inr result"
    and c: "docx_res_content result
          = join (lit ''\<newline>'') (paragraph_lines ?doc @ table_lines ?doc)"
    using docx_parse_ok [where open_docx = "\<lambda>c. Inr ?doc" and content = "blit ''PK''", OF o]
    by blast
  have e: "join (lit ''\<newline>'') (paragraph_lines ?doc @ table_lines ?doc)
      = lit ''Sample\<newline>Header 1 | Header 2\<newline>Data 1 | Data 2\<newline>Total''"
    by (simp add: one_paragraph_document_def header_data_table_def padded_table_def
        paragraph_lines_def table_lines_def row_lines_def row_text_def
        strip_def lstrip_def rstrip_def lit_def is_space_def)
  show ?thesis using m s r p c e by simp
qed

text \<open>
  C9 (amended): for every DOCX document that opens and contains a table whose two rows
  have the cell texts "Header 1", "Header 2" and "Data 1", "Data 2", \<open>parse\<close> returns a
  result whose content holds the line "Header 1 | Header 2" and the line
  "Data 1 | Data 2". The content is the paragraph lines followed by the table lines, in
  order, joined by line breaks; the line of a row joins by " | " the cell texts of the
  row, each stripped of surrounding whitespace, leaving out the cells that are empty
  after stripping, and a row in which every cell is empty after stripping gives no line.
\<close>

theorem docx_parse_table_rows:
  assumes "open_docx content = Inr doc"
    and "table \<in> set (doc_tables doc)"
    and "table_rows table =
           [[lit ''Header 1'', lit ''Header 2''], [lit ''Data 1'', lit ''Data 2'']]"
  shows "\<exists>result before after pre1 post1 pre2 post2.
       fst (docx_parse open_docx str_int lower self content) = Inr result
     \<and> docx_res_content result = join (lit ''\<newline>'') (paragraph_lines doc @ table_lines doc)
     \<and> table_lines doc = before @ [lit ''Header 1 | Header 2'', lit ''Data 1 | Data 2''] @ after
     \<and> docx_res_content result = pre1 @ lit ''Header 1 | Header 2'' @ post1
     \<and> docx_res_content result = pre2 @ lit ''Data 1 | Data 2'' @ post2
     \<and> row_lines cells =
         (if \<forall>cell \<in> set cells. strip cell = [] then []
          else [join (lit '' | '') (map strip (filter (\<lambda>cell. strip cell \<noteq> []) cells))])"
proof -
  obtain result where r: "fst (docx_parse open_docx str_int lower self content) = Inr result"
    and c: "docx_res_content result = join (lit ''\<newline>'') (paragraph_lines doc @ table_lines doc)"
    using docx_parse_ok [where open_docx = open_docx and content = content, OF assms(1)] by blast
  obtain before after where
    t: "table_lines doc = before @ [lit ''Header 1 | Header 2'', lit ''Data 1 | Data 2''] @ after"
    using table_lines_member [OF assms(2)] header_rows assms(3) by metis
  have m1: "lit ''Header 1 | Header 2'' \<in> set (paragraph_lines doc @ table_lines doc)"
    and m2: "lit ''Data 1 | Data 2'' \<in> set (paragraph_lines doc @ table_lines doc)"
    using t by simp_all
  obtain pre1 post1 where p1: "docx_res_content result = pre1 @ lit ''Header 1 | Header 2'' @ post1"
    using join_member [OF m1] c by metis
  obtain pre2 post2 where p2: "docx_res_content result = pre2 @ lit ''Data 1 | Data 2'' @ post2"
    using join_member [OF m2] c by metis
  show ?thesis using r c t p1 p2 row_lines_iff [of cells] by blast
qed

theorem docx_parse_table_rows_witness:
  "(\<lambda>c. Inr (one_paragraph_document (lit ''Sample DOCX content'') [header_data_table]))
       (blit ''PK'')
     = (Inr (one_paragraph_document (lit ''Sample DOCX content'') [header_data_table])
          :: exn + docx_document)
   \<and> header_data_table
       \<in> set (doc_tables (one_paragraph_document (lit ''Sample DOCX content'')
                            [header_data_table]))
   \<and> table_rows header_data_table
       = [[lit ''Header 1'', lit ''Header 2''], [lit ''Data 1'', lit ''Data 2'']]
   \<and> map_sum id docx_res_content
        (fst (docx_parse
                (\<lambda>c. Inr (one_paragraph_document (lit ''Sample DOCX content'')
                              [header_data_table]))
                py_int ascii_lower new_docx_parser (blit ''PK'')))
       = Inr (lit ''Sample DOCX content\<newline>Header 1 | Header 2\<newline>Data 1 | Data 2'')"
proof -
  let ?doc = "one_paragraph_document (lit ''Sample DOCX content'') [header_data_table]"
  have h1: "(\<lambda>c. Inr ?doc) (blit ''PK'') = (Inr ?doc :: exn + docx_document)" by simp
  have h2: "header_data_table \<in> set (doc_tables ?doc)"
    by (simp add: one_paragraph_document_def)
  have h3: "table_rows header_data_table
       = [[lit ''Header 1'', lit ''Header 2''], [lit ''Data 1'', lit ''Data 2'']]"
    by (simp add: header_data_table_def)
  obtain result where
    p: "fst (docx_parse (\<lambda>c. Inr ?doc) py_int ascii_lower new_docx_parser (blit ''PK''))
          = Inr result"
    and c: "docx_res_content result
          = join (lit ''\<newline>'') (paragraph_lines ?doc @ table_lines ?doc)"
    using docx_parse_table_rows
            [where open_docx = "\<lambda>c. Inr ?doc" and content = "blit ''PK''"
               and str_int = py_int and lower = ascii_lower and self = new_docx_parser,
             OF h1 h2 h3]
    by blast
  have e: "join (lit ''\<newline>'') (paragraph_lines ?doc @ table_lines ?doc)
      = lit ''Sample DOCX content\<newline>Header 1 | Header 2\<newline>Data 1 | Data 2''"
    by (simp add: one_paragraph_document_def header_data_table_def
        paragraph_lines_def table_lines_def row_lines_def row_text_def
        strip_def lstrip_def rstrip_def lit_def is_space_def)
  show ?thesis using h1 h2 h3 p c e by simp
qed

end
